theory Spec2Isabelle
  imports Complex_Main "HOL-Library.Stream" "HOL-Library.AList"
begin

section \<open>Python runtime: exceptions, clock and random source\<close>

text \<open>
  The program is Python. Floats are modelled as \<^typ>\<open>real\<close>, Python integers as
  \<^typ>\<open>int\<close> (\<^typ>\<open>nat\<close> for counters that only count up from zero). An exception
  that leaves a function is the \<open>Inl\<close> of a sum type; the argument of the exception is the
  key or the attribute name that was not found.
\<close>

datatype py_error =
    KeyError string
  | AttributeError string
  | IndexError
  | ValueError string
  | TypeError
  | JSONDecodeError

text \<open>
  \<open>random.random()\<close>, \<open>random.sample\<close> and \<open>time.time()\<close> read ambient state. The
  model makes that state an explicit record of three infinite streams and returns the advanced
  record with every reading.
\<close>

record runtime =
  rand_floats :: "real stream"
  rand_ints :: "nat stream"
  clock :: "real stream"

definition random_random :: "runtime \<Rightarrow> real \<times> runtime" where
  "random_random rt = (shd (rand_floats rt), rt\<lparr>rand_floats := stl (rand_floats rt)\<rparr>)"

definition random_uniform :: "runtime \<Rightarrow> real \<Rightarrow> real \<Rightarrow> real \<times> runtime" where
  \<comment> \<open>\<open>random.uniform(a, b)\<close> is \<open>a + (b - a) * random()\<close>.\<close>
  "random_uniform rt a b = (case random_random rt of (u, rt') \<Rightarrow> (a + (b - a) * u, rt'))"

definition time_time :: "runtime \<Rightarrow> real \<times> runtime" where
  "time_time rt = (shd (clock rt), rt\<lparr>clock := stl (clock rt)\<rparr>)"

definition py_fmod :: "real \<Rightarrow> real \<Rightarrow> real" where
  \<comment> \<open>Python's \<open>x % m\<close> on floats, for \<open>m > 0\<close>.\<close>
  "py_fmod x m = x - m * of_int \<lfloor>x / m\<rfloor>"

section \<open>agent.py\<close>

datatype ActionType = EAT | WORK | SLEEP | SOCIALIZE | IDLE

definition ActionType_members :: "ActionType list" where
  "ActionType_members = [EAT, WORK, SLEEP, SOCIALIZE, IDLE]"

fun ActionType_value :: "ActionType \<Rightarrow> string" where
  "ActionType_value EAT = ''eat''"
| "ActionType_value WORK = ''work''"
| "ActionType_value SLEEP = ''sleep''"
| "ActionType_value SOCIALIZE = ''socialize''"
| "ActionType_value IDLE = ''idle''"

subsection \<open>Need\<close>

text \<open>The dataclass \<open>Need\<close>; its field \<open>value\<close> is called \<open>val\<close> here.\<close>

record Need =
  val :: real
  decay_rate :: real
  satisfaction_threshold :: real

definition Need_update :: "Need \<Rightarrow> real \<Rightarrow> Need" where
  "Need_update n dt = n\<lparr>val := max 0 (val n - decay_rate n * dt)\<rparr>"

definition Need_satisfy :: "Need \<Rightarrow> real \<Rightarrow> Need" where
  "Need_satisfy n amount = n\<lparr>val := min 100 (val n + amount)\<rparr>"

definition Need_is_critical :: "Need \<Rightarrow> bool" where
  "Need_is_critical n = (val n > satisfaction_threshold n)"

text \<open>A call on a \<open>Need\<close> object, and a finite sequence of such calls run in order.\<close>

datatype need_call = Update real | Satisfy real

fun apply_call :: "Need \<Rightarrow> need_call \<Rightarrow> Need" where
  "apply_call n (Update dt) = Need_update n dt"
| "apply_call n (Satisfy amount) = Need_satisfy n amount"

fun call_arg :: "need_call \<Rightarrow> real" where
  "call_arg (Update dt) = dt"
| "call_arg (Satisfy amount) = amount"

definition apply_calls :: "Need \<Rightarrow> need_call list \<Rightarrow> Need" where
  "apply_calls n cs = foldl apply_call n cs"

subsection \<open>PersonalityTrait and Habit\<close>

record PersonalityTrait =
  discipline :: real
  sociability :: real
  ambition :: real
  creativity :: real
  openness :: real
  conscientiousness :: real
  extraversion :: real
  agreeableness :: real
  neuroticism :: real

record Habit =
  action :: ActionType
  strength :: real
  time_preference :: real
  success_count :: int
  total_attempts :: int

definition Habit_reinforce :: "Habit \<Rightarrow> bool \<Rightarrow> Habit" where
  "Habit_reinforce h success =
     (let h1 = h\<lparr>total_attempts := total_attempts h + 1\<rparr>
      in if success
         then h1\<lparr>success_count := success_count h1 + 1,
                 strength := min 1 (strength h1 + 0.01)\<rparr>
         else h1\<lparr>strength := max 0 (strength h1 - 0.005)\<rparr>)"

definition Habit_get_success_rate :: "Habit \<Rightarrow> real" where
  "Habit_get_success_rate h =
     (if total_attempts h = 0 then 0.5
      else real_of_int (success_count h) / real_of_int (total_attempts h))"

subsection \<open>VirtualHuman\<close>

text \<open>
  \<open>self.needs\<close> is a dict that \<open>__init__\<close> creates with exactly the four keys
  \<open>'hunger'\<close>, \<open>'energy'\<close>, \<open>'happiness'\<close> and \<open>'social_need'\<close>; no statement of
  the program adds or deletes a key. The dict is a record of its four entries, and subscripting it
  with a string is \<open>needs_getitem\<close>, which raises \<open>KeyError\<close> for every other key as the
  dict does.
\<close>

record Needs =
  hunger :: Need
  energy :: Need
  happiness :: Need
  social_need :: Need

definition needs_keys :: "string list" where
  "needs_keys = [''hunger'', ''energy'', ''happiness'', ''social_need'']"

definition needs_getitem :: "Needs \<Rightarrow> string \<Rightarrow> py_error + Need" where
  "needs_getitem ns k =
     (if k = ''hunger'' then Inr (hunger ns)
      else if k = ''energy'' then Inr (energy ns)
      else if k = ''happiness'' then Inr (happiness ns)
      else if k = ''social_need'' then Inr (social_need ns)
      else Inl (KeyError k))"

definition needs_setitem :: "Needs \<Rightarrow> string \<Rightarrow> Need \<Rightarrow> Needs" where
  \<comment> \<open>Storing the mutated \<open>Need\<close> object back under a key that exists.\<close>
  "needs_setitem ns k n =
     (if k = ''hunger'' then ns\<lparr>hunger := n\<rparr>
      else if k = ''energy'' then ns\<lparr>energy := n\<rparr>
      else if k = ''happiness'' then ns\<lparr>happiness := n\<rparr>
      else if k = ''social_need'' then ns\<lparr>social_need := n\<rparr>
      else ns)"

definition needs_state :: "Needs \<Rightarrow> (string \<times> real) list" where
  \<comment> \<open>\<open>{k: v.value for k, v in self.needs.items()}\<close>\<close>
  "needs_state ns =
     [(''hunger'', val (hunger ns)), (''energy'', val (energy ns)),
      (''happiness'', val (happiness ns)), (''social_need'', val (social_need ns))]"

text \<open>
  \<open>self.decision_weights\<close> is likewise a dict with five fixed keys.
\<close>

record decision_weights_t =
  need_urgency :: real
  habit_strength :: real
  personality_w :: real
  money_factor :: real
  mood_factor :: real

text \<open>
  A memory record is the dict literal that \<open>perform_action\<close> appends: eight keys, always
  the same. Reading it by key gives a Python value; a key outside the eight raises
  \<open>KeyError\<close>.
\<close>

record memory_record =
  rec_action :: ActionType
  rec_success :: bool
  rec_reward :: real
  rec_cost :: real
  rec_timestamp :: real
  rec_needs_state :: "(string \<times> real) list"
  rec_money :: real
  rec_mood :: real

datatype py_value =
    PyAction ActionType
  | PyBool bool
  | PyFloat real
  | PyDict "(string \<times> real) list"

definition memory_keys :: "string list" where
  "memory_keys = [''action'', ''success'', ''reward'', ''cost'', ''timestamp'',
                  ''needs_state'', ''money'', ''mood'']"

definition memory_getitem :: "memory_record \<Rightarrow> string \<Rightarrow> py_error + py_value" where
  "memory_getitem m k =
     (if k = ''action'' then Inr (PyAction (rec_action m))
      else if k = ''success'' then Inr (PyBool (rec_success m))
      else if k = ''reward'' then Inr (PyFloat (rec_reward m))
      else if k = ''cost'' then Inr (PyFloat (rec_cost m))
      else if k = ''timestamp'' then Inr (PyFloat (rec_timestamp m))
      else if k = ''needs_state'' then Inr (PyDict (rec_needs_state m))
      else if k = ''money'' then Inr (PyFloat (rec_money m))
      else if k = ''mood'' then Inr (PyFloat (rec_mood m))
      else Inl (KeyError k))"

text \<open>
  \<open>self.habits\<close> has the keys \<open>EAT\<close>, \<open>WORK\<close>, \<open>SLEEP\<close>, \<open>SOCIALIZE\<close> (a map:
  \<open>action in self.habits\<close> is tested by the code); \<open>action_rewards\<close> and
  \<open>action_counts\<close> have every \<open>ActionType\<close> as a key, so they are total functions.
\<close>

record VirtualHuman =
  agent_id :: nat
  name :: string
  needs :: Needs
  money :: real
  mood :: real
  personality :: PersonalityTrait
  habits :: "ActionType \<rightharpoonup> Habit"
  current_action :: ActionType
  action_duration :: real
  position :: "real \<times> real"
  energy_level :: real
  decision_weights :: decision_weights_t
  learning_rate :: real
  action_rewards :: "ActionType \<Rightarrow> real"
  action_counts :: "ActionType \<Rightarrow> int"
  memory :: "memory_record list"
  total_actions :: int
  action_history :: "ActionType list"
  satisfaction_history :: "real list"

text \<open>
  The first half of \<open>perform_action\<close>: the branch of the action, gated by its
  feasibility test. It yields the agent with needs and money changed, and the locals
  \<open>success\<close>, \<open>reward\<close> and \<open>cost\<close>.
\<close>

definition set_val :: "Need \<Rightarrow> real \<Rightarrow> Need" where
  "set_val n v = n\<lparr>val := v\<rparr>"

fun action_effect :: "VirtualHuman \<Rightarrow> ActionType \<Rightarrow> real \<Rightarrow> VirtualHuman \<times> bool \<times> real \<times> real" where
  "action_effect a EAT dt =
     (let ns = needs a in
      if val (hunger ns) > 10 \<and> money a \<ge> 5 then
        let hunger_reduction = min (30 * dt) (val (hunger ns));
            ns1 = ns\<lparr>hunger := set_val (hunger ns) (val (hunger ns) - hunger_reduction)\<rparr>;
            ns2 = ns1\<lparr>happiness := set_val (happiness ns1) (min 100 (val (happiness ns1) + 5 * dt))\<rparr>;
            cost = 5 * dt
        in (a\<lparr>needs := ns2, money := money a - cost\<rparr>, True, hunger_reduction * 0.1, cost)
      else (a, False, 0, 0))"
| "action_effect a SLEEP dt =
     (let ns = needs a in
      if val (energy ns) < 90 then
        let energy_gain = min (40 * dt) (100 - val (energy ns));
            ns1 = ns\<lparr>energy := set_val (energy ns) (val (energy ns) + energy_gain)\<rparr>;
            ns2 = ns1\<lparr>social_need := set_val (social_need ns1) (min 100 (val (social_need ns1) + 2 * dt))\<rparr>
        in (a\<lparr>needs := ns2\<rparr>, True, energy_gain * 0.05, 0)
      else (a, False, 0, 0))"
| "action_effect a SOCIALIZE dt =
     (let ns = needs a in
      if val (social_need ns) > 5 \<and> money a \<ge> 3 then
        let social_reduction = min (25 * dt) (val (social_need ns));
            ns1 = ns\<lparr>social_need := set_val (social_need ns) (val (social_need ns) - social_reduction)\<rparr>;
            ns2 = ns1\<lparr>happiness := set_val (happiness ns1) (min 100 (val (happiness ns1) + 8 * dt))\<rparr>;
            cost = 3 * dt
        in (a\<lparr>needs := ns2, money := money a - cost\<rparr>, True,
            social_reduction * 0.08 + sociability (personality a) * 0.1, cost)
      else (a, False, 0, 0))"
| "action_effect a WORK dt =
     (let ns = needs a in
      if val (energy ns) > 20 then
        let money_earned = (10 + ambition (personality a) * 5) * dt;
            ns1 = ns\<lparr>energy := set_val (energy ns) (max 0 (val (energy ns) - 15 * dt))\<rparr>;
            ns2 = ns1\<lparr>hunger := set_val (hunger ns1) (min 100 (val (hunger ns1) + 8 * dt))\<rparr>;
            ns3 = ns2\<lparr>happiness := set_val (happiness ns2) (max 0 (val (happiness ns2) - 3 * dt))\<rparr>
        in (a\<lparr>needs := ns3, money := money a + money_earned\<rparr>, True,
            money_earned * 0.02 + ambition (personality a) * 0.1, 0)
      else (a, False, 0, 0))"
| "action_effect a IDLE dt = (a, True, 0, 0)"

text \<open>
  The second half: mood, the reinforcement counters, the habit, and the memory record
  (\<open>now\<close> is what \<open>time.time()\<close> returns there), trimmed to the last 100 entries.
\<close>

definition record_outcome ::
  "real \<Rightarrow> VirtualHuman \<Rightarrow> ActionType \<Rightarrow> bool \<Rightarrow> real \<Rightarrow> real \<Rightarrow> VirtualHuman" where
  "record_outcome now a act success reward cost =
     (let a1 = a\<lparr>mood := (if success then min 1 (mood a + 0.02) else max 0 (mood a - 0.05))\<rparr>;
          a2 = a1\<lparr>action_counts := (action_counts a1)(act := action_counts a1 act + 1)\<rparr>;
          a3 = (if success then
                  let b = a2\<lparr>action_rewards := (action_rewards a2)(act := action_rewards a2 act + reward)\<rparr>
                  in if reward > 0.5
                     then b\<lparr>decision_weights := (decision_weights b)
                              \<lparr>habit_strength := min 0.5 (habit_strength (decision_weights b) + 0.01)\<rparr>\<rparr>
                     else b
                else a2\<lparr>action_rewards := (action_rewards a2)(act := action_rewards a2 act - 0.1)\<rparr>);
          a4 = (case habits a3 act of
                  Some h \<Rightarrow> a3\<lparr>habits := (habits a3)(act \<mapsto> Habit_reinforce h success)\<rparr>
                | None \<Rightarrow> a3);
          entry = \<lparr>rec_action = act, rec_success = success, rec_reward = reward, rec_cost = cost,
                   rec_timestamp = now, rec_needs_state = needs_state (needs a4),
                   rec_money = money a4, rec_mood = mood a4\<rparr>;
          mem = memory a4 @ [entry]
      in a4\<lparr>memory := (if length mem > 100 then tl mem else mem)\<rparr>)"

definition perform_action :: "real \<Rightarrow> VirtualHuman \<Rightarrow> ActionType \<Rightarrow> real \<Rightarrow> VirtualHuman \<times> bool" where
  "perform_action now a act dt =
     (case action_effect a act dt of
        (a', success, reward, cost) \<Rightarrow> (record_outcome now a' act success reward cost, success))"

subsection \<open>evolve_behavior\<close>

text \<open>
  The per-action tally \<open>action_performance\<close> of \<open>evolve_behavior\<close>: a dict from
  \<open>ActionType\<close> to the three counters, in first-seen order.
\<close>

record performance =
  successes :: int
  attempts :: int
  satisfaction :: real

definition tally_memory ::
  "(ActionType \<times> performance) list \<Rightarrow> memory_record
   \<Rightarrow> py_error + (ActionType \<times> performance) list" where
  \<comment> \<open>One pass of the loop \<open>for memory in recent_memory\<close>.\<close>
  "tally_memory perf m =
     (let act = rec_action m;
          perf1 = (if map_of perf act = None
                   then AList.update act \<lparr>successes = 0, attempts = 0, satisfaction = 0\<rparr> perf
                   else perf);
          p0 = (case map_of perf1 act of Some p \<Rightarrow> p
                | None \<Rightarrow> \<lparr>successes = 0, attempts = 0, satisfaction = 0\<rparr>);
          p1 = p0\<lparr>attempts := attempts p0 + 1\<rparr>;
          p2 = (if rec_success m then p1\<lparr>successes := successes p1 + 1\<rparr> else p1)
      in case memory_getitem m ''satisfaction_gain'' of
           Inl e \<Rightarrow> Inl e
         | Inr (PyFloat g) \<Rightarrow> Inr (AList.update act (p2\<lparr>satisfaction := satisfaction p2 + g\<rparr>) perf1)
         | Inr _ \<Rightarrow> Inl TypeError)"

fun tally_all ::
  "(ActionType \<times> performance) list \<Rightarrow> memory_record list
   \<Rightarrow> py_error + (ActionType \<times> performance) list" where
  "tally_all perf [] = Inr perf"
| "tally_all perf (m # ms) =
     (case tally_memory perf m of Inl e \<Rightarrow> Inl e | Inr perf' \<Rightarrow> tally_all perf' ms)"

definition adjust_habit :: "VirtualHuman \<Rightarrow> ActionType \<times> performance \<Rightarrow> VirtualHuman" where
  \<comment> \<open>One pass of the loop \<open>for action, perf in action_performance.items()\<close>.\<close>
  "adjust_habit a ap =
     (case ap of (act, perf) \<Rightarrow>
        if attempts perf > 0 then
          let success_rate' = real_of_int (successes perf) / real_of_int (attempts perf);
              avg_satisfaction = satisfaction perf / real_of_int (attempts perf)
          in (case habits a act of
                None \<Rightarrow> a
              | Some h \<Rightarrow>
                  if success_rate' > 0.7 \<and> avg_satisfaction > 0.1
                  then a\<lparr>habits := (habits a)(act \<mapsto> h\<lparr>strength := min 1 (strength h + 0.02)\<rparr>)\<rparr>
                  else if success_rate' < 0.3 \<or> avg_satisfaction < 0.05
                  then a\<lparr>habits := (habits a)(act \<mapsto> h\<lparr>strength := max 0 (strength h - 0.01)\<rparr>)\<rparr>
                  else a)
        else a)"

definition last_n :: "nat \<Rightarrow> 'a list \<Rightarrow> 'a list" where
  \<comment> \<open>The slice \<open>xs[-n:]\<close> for \<open>n > 0\<close>.\<close>
  "last_n n xs = drop (length xs - n) xs"

definition evolve_behavior :: "VirtualHuman \<Rightarrow> py_error + VirtualHuman" where
  "evolve_behavior a =
     (if length (memory a) < 10 then Inr a
      else case tally_all [] (last_n 20 (memory a)) of
             Inl e \<Rightarrow> Inl e
           | Inr action_performance \<Rightarrow> Inr (foldl adjust_habit a action_performance))"

fun repeat_action :: "nat \<Rightarrow> real \<Rightarrow> VirtualHuman \<Rightarrow> ActionType \<Rightarrow> real \<Rightarrow> VirtualHuman" where
  \<comment> \<open>\<open>n\<close> calls of \<open>perform_action\<close> in a row.\<close>
  "repeat_action 0 now a act dt = a"
| "repeat_action (Suc n) now a act dt = repeat_action n now (fst (perform_action now a act dt)) act dt"

section \<open>behavior_model.py\<close>

subsection \<open>BehaviorPattern\<close>

text \<open>
  The expected value of a condition is a number (every condition the program creates is a
  float) or, read from a file that was edited, something that is not a number; the text
  stands for those.
\<close>

datatype cond_value = Number real | Text string

record BehaviorPattern =
  pattern_id :: string
  conditions :: "(string \<times> cond_value) list"
  actions :: "ActionType list"
  success_rate :: real
  usage_count :: int
  last_used :: int
  effectiveness_history :: "bool list"

definition new_BehaviorPattern ::
  "string \<Rightarrow> (string \<times> cond_value) list \<Rightarrow> ActionType list \<Rightarrow> real \<Rightarrow> int \<Rightarrow> BehaviorPattern" where
  \<comment> \<open>\<open>BehaviorPattern.__init__\<close>\<close>
  "new_BehaviorPattern pid conds acts sr uc =
     \<lparr>pattern_id = pid, conditions = conds, actions = acts, success_rate = sr,
      usage_count = uc, last_used = 0, effectiveness_history = []\<rparr>"

definition condition_step ::
  "(string \<times> real) list \<Rightarrow> nat \<times> nat \<Rightarrow> string \<times> cond_value \<Rightarrow> nat \<times> nat" where
  \<comment> \<open>One pass of the loop of \<open>matches_conditions\<close>; the pair is \<open>(matches, total)\<close>, written \<open>(matches, tot)\<close>.
      The agent state holds floats, and a float is never equal to a value that is not a number.\<close>
  "condition_step agent_state acc c =
     (case acc of (matches, tot) \<Rightarrow>
      case c of (condition, expected_value) \<Rightarrow>
        (case map_of agent_state condition of
           None \<Rightarrow> (matches, tot)
         | Some current_value \<Rightarrow>
             (case expected_value of
                Number e \<Rightarrow> (if \<bar>current_value - e\<bar> < 0.2 then matches + 1 else matches, tot + 1)
              | Text s \<Rightarrow> (if Number current_value = Text s then matches + 1 else matches, tot + 1))))"

definition matches_conditions :: "BehaviorPattern \<Rightarrow> (string \<times> real) list \<Rightarrow> real \<Rightarrow> bool" where
  "matches_conditions p agent_state threshold =
     (case foldl (condition_step agent_state) (0, 0) (conditions p) of
        (matches, tot) \<Rightarrow> if tot > 0 then real matches / real tot \<ge> threshold else False)"

definition update_effectiveness :: "BehaviorPattern \<Rightarrow> bool \<Rightarrow> BehaviorPattern" where
  "update_effectiveness p success =
     (let h1 = effectiveness_history p @ [success];
          h2 = (if length h1 > 20 then tl h1 else h1);
          p1 = p\<lparr>usage_count := usage_count p + 1, effectiveness_history := h2\<rparr>
      in if h2 \<noteq> []
         then p1\<lparr>success_rate := real (length (filter (\<lambda>b. b) h2)) / real (length h2)\<rparr>
         else p1)"

subsection \<open>GenerativeBehaviorModel\<close>

text \<open>
  \<open>self.patterns\<close> is a dict from pattern id to pattern object: an association list in
  insertion order, written with \<open>AList.update\<close> (replace in place, or append) and
  \<open>AList.delete\<close>. A pattern object that the code mutates through a reference is the entry
  at its position in the list. The scaler and the clusterer of \<open>discover_patterns\<close> belong
  to scikit-learn and are left out.
\<close>

record GenerativeBehaviorModel =
  patterns :: "(string \<times> BehaviorPattern) list"
  pattern_counter :: nat
  model_learning_rate :: real
  exploration_rate :: real
  min_pattern_usage :: int

definition new_GenerativeBehaviorModel :: GenerativeBehaviorModel where
  "new_GenerativeBehaviorModel =
     \<lparr>patterns = [], pattern_counter = 0, model_learning_rate = 0.1,
      exploration_rate = 0.2, min_pattern_usage = 5\<rparr>"

definition get_time_of_day :: "runtime \<Rightarrow> real \<times> runtime" where
  \<comment> \<open>\<open>VirtualHuman.get_time_of_day\<close>: \<open>(time.time() % 86400) / 86400\<close>\<close>
  "get_time_of_day rt = (case time_time rt of (t, rt') \<Rightarrow> (py_fmod t 86400 / 86400, rt'))"

definition agent_state_of :: "VirtualHuman \<Rightarrow> real \<Rightarrow> (string \<times> real) list" where
  "agent_state_of agent time_of_day =
     [(''hunger'', val (hunger (needs agent))),
      (''energy'', val (energy (needs agent))),
      (''social_need'', val (social_need (needs agent))),
      (''happiness'', val (happiness (needs agent))),
      (''time_of_day'', time_of_day)]"

fun max_by :: "('a \<Rightarrow> real) \<Rightarrow> 'a \<Rightarrow> 'a list \<Rightarrow> 'a" where
  \<comment> \<open>Python's \<open>max(xs, key=f)\<close> on a list \<open>best # xs\<close>: the first element with the greatest key.\<close>
  "max_by f best [] = best"
| "max_by f best (x # xs) = (if f x > f best then max_by f x xs else max_by f best xs)"

definition recency_score :: "BehaviorPattern \<Rightarrow> real" where
  "recency_score p = success_rate p * (1 + 0.1 * (100 - real_of_int (last_used p)))"

definition reset_recency :: "nat \<Rightarrow> (string \<times> BehaviorPattern) list \<Rightarrow> (string \<times> BehaviorPattern) list" where
  \<comment> \<open>\<open>best_pattern.last_used = 0\<close> on the object stored at position \<open>i\<close>.\<close>
  "reset_recency i ps = ps[i := (fst (ps ! i), (snd (ps ! i))\<lparr>last_used := 0\<rparr>)]"

definition suggest_action ::
  "runtime \<Rightarrow> GenerativeBehaviorModel \<Rightarrow> VirtualHuman
   \<Rightarrow> ActionType option \<times> GenerativeBehaviorModel \<times> runtime" where
  "suggest_action rt m agent =
     (case random_random rt of (r, rt1) \<Rightarrow>
      if r < exploration_rate m then (None, m, rt1)
      else
        (case get_time_of_day rt1 of (time_of_day, rt2) \<Rightarrow>
         let agent_state = agent_state_of agent time_of_day;
             matching_patterns =
               filter (\<lambda>ip. matches_conditions (snd ip) agent_state 0.8
                             \<and> usage_count (snd ip) \<ge> min_pattern_usage m
                             \<and> success_rate (snd ip) > 0.6)
                      (zip [0 ..< length (patterns m)] (map snd (patterns m)))
         in (case matching_patterns of
               [] \<Rightarrow> (None, m, rt2)
             | first # others \<Rightarrow>
                 (case max_by (\<lambda>ip. recency_score (snd ip)) first others of (i, best_pattern) \<Rightarrow>
                  (case actions best_pattern of
                     [] \<Rightarrow> (None, m, rt2)
                   | act # _ \<Rightarrow> (Some act, m\<lparr>patterns := reset_recency i (patterns m)\<rparr>, rt2))))))"

definition established_match ::
  "GenerativeBehaviorModel \<Rightarrow> (string \<times> real) list \<Rightarrow> BehaviorPattern \<Rightarrow> bool" where
  \<comment> \<open>The test of the filter in \<open>suggest_action\<close>: the pattern matches the agent state,
      is established and has a success rate above 0.6.\<close>
  "established_match m agent_state p =
     (matches_conditions p agent_state 0.8
      \<and> usage_count p \<ge> min_pattern_usage m
      \<and> success_rate p > 0.6)"

fun update_first_match ::
  "(string \<times> real) list \<Rightarrow> ActionType \<Rightarrow> bool \<Rightarrow> (string \<times> BehaviorPattern) list
   \<Rightarrow> (string \<times> BehaviorPattern) list" where
  \<comment> \<open>The loop of \<open>update_pattern_effectiveness\<close>, which stops at the first pattern it updates.\<close>
  "update_first_match agent_state suggested_action success [] = []"
| "update_first_match agent_state suggested_action success ((pid, p) # ps) =
     (if matches_conditions p agent_state 0.8
         \<and> (case actions p of [] \<Rightarrow> False | act # _ \<Rightarrow> act = suggested_action)
      then (pid, update_effectiveness p success) # ps
      else (pid, p) # update_first_match agent_state suggested_action success ps)"

definition update_pattern_effectiveness ::
  "runtime \<Rightarrow> GenerativeBehaviorModel \<Rightarrow> VirtualHuman \<Rightarrow> ActionType \<Rightarrow> bool
   \<Rightarrow> GenerativeBehaviorModel \<times> runtime" where
  "update_pattern_effectiveness rt m agent suggested_action success =
     (case get_time_of_day rt of (time_of_day, rt1) \<Rightarrow>
        (m\<lparr>patterns := update_first_match (agent_state_of agent time_of_day)
                          suggested_action success (patterns m)\<rparr>, rt1))"

definition kept_fields ::
  "string \<times> BehaviorPattern
   \<Rightarrow> string \<times> string \<times> (string \<times> cond_value) list \<times> ActionType list \<times> real \<times> int \<times> bool list" where
  \<comment> \<open>A store entry without its recency counter: the key and every other field of the pattern.\<close>
  "kept_fields kp =
     (fst kp, pattern_id (snd kp), conditions (snd kp), actions (snd kp), success_rate (snd kp),
      usage_count (snd kp), effectiveness_history (snd kp))"

subsection \<open>evolve_patterns\<close>

definition age :: "BehaviorPattern \<Rightarrow> BehaviorPattern" where
  \<comment> \<open>\<open>pattern.last_used += 1\<close>\<close>
  "age p = p\<lparr>last_used := last_used p + 1\<rparr>"

definition to_remove :: "GenerativeBehaviorModel \<Rightarrow> BehaviorPattern \<Rightarrow> bool" where
  \<comment> \<open>The two tests of the loop, on a pattern that has been aged already.\<close>
  "to_remove m p =
     ((usage_count p \<ge> min_pattern_usage m * 2 \<and> success_rate p < 0.3)
      \<or> (last_used p > 100 \<and> usage_count p < min_pattern_usage m))"

definition prune_patterns :: "GenerativeBehaviorModel \<Rightarrow> GenerativeBehaviorModel" where
  \<comment> \<open>The first two loops of \<open>evolve_patterns\<close>. A key in \<open>patterns_to_remove\<close> was read
      from the dict in the loop before, so \<open>del\<close> finds it.\<close>
  "prune_patterns m =
     (let aged = map (\<lambda>kp. (fst kp, age (snd kp))) (patterns m);
          patterns_to_remove = map fst (filter (\<lambda>kp. to_remove m (snd kp)) aged)
      in m\<lparr>patterns := foldl (\<lambda>ps pid. AList.delete pid ps) aged patterns_to_remove\<rparr>)"

fun perturb_conditions ::
  "runtime \<Rightarrow> (string \<times> cond_value) list \<Rightarrow> (string \<times> cond_value) list \<times> runtime" where
  "perturb_conditions rt [] = ([], rt)"
| "perturb_conditions rt ((key, Number v) # cs) =
     (case random_uniform rt (- 0.1) 0.1 of (u, rt1) \<Rightarrow>
      case perturb_conditions rt1 cs of (cs', rt2) \<Rightarrow>
        ((key, Number (max 0 (min 1 (v + u)))) # cs', rt2))"
| "perturb_conditions rt ((key, Text s) # cs) =
     (case perturb_conditions rt cs of (cs', rt1) \<Rightarrow> ((key, Text s) # cs', rt1))"

definition randbelow :: "runtime \<Rightarrow> nat \<Rightarrow> nat \<times> runtime" where
  \<comment> \<open>The integer draw below \<open>n\<close> that \<open>random.sample\<close> makes.\<close>
  "randbelow rt n = (shd (rand_ints rt) mod n, rt\<lparr>rand_ints := stl (rand_ints rt)\<rparr>)"

definition random_sample2 :: "runtime \<Rightarrow> nat \<Rightarrow> (nat \<times> nat) \<times> runtime" where
  \<comment> \<open>\<open>random.sample(range(n), 2)\<close> for \<open>n \<ge> 2\<close>: two different indices below \<open>n\<close>.
      The second pick reads the pool in which the first pick was replaced by the last index.\<close>
  "random_sample2 rt n =
     (case randbelow rt n of (i, rt1) \<Rightarrow>
      case randbelow rt1 (n - 1) of (j, rt2) \<Rightarrow>
        ((i, if j = i then n - 1 else j), rt2))"

fun py_str :: "nat \<Rightarrow> string" where
  \<comment> \<open>\<open>str(n)\<close>: the decimal digits of \<open>n\<close>.\<close>
  "py_str n =
     (if n < 10 then [''0123456789'' ! n]
      else py_str (n div 10) @ [''0123456789'' ! (n mod 10)])"

declare py_str.simps [simp del]

definition create_pattern_mutation ::
  "runtime \<Rightarrow> GenerativeBehaviorModel \<Rightarrow> BehaviorPattern \<Rightarrow> GenerativeBehaviorModel \<times> runtime" where
  "create_pattern_mutation rt m original_pattern =
     (case perturb_conditions rt (conditions original_pattern) of (new_conditions, rt1) \<Rightarrow>
      let acts = actions original_pattern in
      case (if length acts > 1
            then (case random_random rt1 of (r, rt2) \<Rightarrow>
                    if r < 0.3
                    then (case random_sample2 rt2 (length acts) of ((i, j), rt3) \<Rightarrow>
                            (acts[i := acts ! j, j := acts ! i], rt3))
                    else (acts, rt2))
            else (acts, rt1)) of
        (new_actions, rt4) \<Rightarrow>
          let mutation_id = ''mutation_'' @ py_str (pattern_counter m) @ ''_'' @ pattern_id original_pattern;
              mutated_pattern = new_BehaviorPattern mutation_id new_conditions new_actions
                                  (success_rate original_pattern * 0.9) 0
          in (m\<lparr>pattern_counter := pattern_counter m + 1,
                patterns := AList.update mutation_id mutated_pattern (patterns m)\<rparr>, rt4))"

fun mutate_each ::
  "runtime \<Rightarrow> GenerativeBehaviorModel \<Rightarrow> BehaviorPattern list \<Rightarrow> GenerativeBehaviorModel \<times> runtime" where
  \<comment> \<open>The loop of \<open>_mutate_successful_patterns\<close> over the patterns selected before it starts.\<close>
  "mutate_each rt m [] = (m, rt)"
| "mutate_each rt m (p # ps) =
     (case random_random rt of (r, rt1) \<Rightarrow>
      if r < 0.1
      then (case create_pattern_mutation rt1 m p of (m', rt2) \<Rightarrow> mutate_each rt2 m' ps)
      else mutate_each rt1 m ps)"

definition mutate_successful_patterns ::
  "runtime \<Rightarrow> GenerativeBehaviorModel \<Rightarrow> GenerativeBehaviorModel \<times> runtime" where
  "mutate_successful_patterns rt m =
     (let successful_patterns =
            filter (\<lambda>p. success_rate p > 0.8 \<and> usage_count p \<ge> min_pattern_usage m)
                   (map snd (patterns m))
      in mutate_each rt m (take 3 successful_patterns))"

definition evolve_patterns ::
  "runtime \<Rightarrow> GenerativeBehaviorModel \<Rightarrow> GenerativeBehaviorModel \<times> runtime" where
  "evolve_patterns rt m = mutate_successful_patterns rt (prune_patterns m)"

text \<open>
  The ids under which one \<open>evolve_patterns\<close> call stores mutations: the same loop as
  \<open>mutate_each\<close>, collecting the id of every mutation it creates.
\<close>

fun mutation_ids_each ::
  "runtime \<Rightarrow> GenerativeBehaviorModel \<Rightarrow> BehaviorPattern list \<Rightarrow> string list" where
  "mutation_ids_each rt m [] = []"
| "mutation_ids_each rt m (p # ps) =
     (case random_random rt of (r, rt1) \<Rightarrow>
      if r < 0.1
      then (''mutation_'' @ py_str (pattern_counter m) @ ''_'' @ pattern_id p)
           # (case create_pattern_mutation rt1 m p of (m', rt2) \<Rightarrow> mutation_ids_each rt2 m' ps)
      else mutation_ids_each rt1 m ps)"

definition created_mutation_ids :: "runtime \<Rightarrow> GenerativeBehaviorModel \<Rightarrow> string list" where
  "created_mutation_ids rt m =
     (let m1 = prune_patterns m;
          successful_patterns =
            filter (\<lambda>p. success_rate p > 0.8 \<and> usage_count p \<ge> min_pattern_usage m1)
                   (map snd (patterns m1))
      in mutation_ids_each rt m1 (take 3 successful_patterns))"

subsection \<open>save_patterns and load_patterns\<close>

text \<open>
  The file holds JSON text. What \<open>json.load\<close> makes of a file is one of: text that is not
  JSON, a JSON value that is not an object, or an object with one entry per pattern id. An entry
  is the object that \<open>save_patterns\<close> writes for a pattern, each of its five keys present
  or absent; a key that is present holds a value of the type that \<open>save_patterns\<close> writes.
  The file system maps a file name to what the file holds, \<open>None\<close> when there is no file.
  Writing is assumed to succeed, and \<open>json.dump\<close> followed by \<open>json.load\<close> to give back
  the value that was dumped.
\<close>

record pattern_entry =
  j_conditions :: "(string \<times> cond_value) list option"
  j_actions :: "string list option"
  j_success_rate :: "real option"
  j_usage_count :: "int option"
  j_effectiveness_history :: "bool list option"

datatype file_content =
    NotJSON
  | NotAnObject
  | PatternData "(string \<times> pattern_entry) list"

type_synonym filesystem = "string \<rightharpoonup> file_content"

definition pattern_to_entry :: "BehaviorPattern \<Rightarrow> pattern_entry" where
  "pattern_to_entry p =
     \<lparr>j_conditions = Some (conditions p),
      j_actions = Some (map ActionType_value (actions p)),
      j_success_rate = Some (success_rate p),
      j_usage_count = Some (usage_count p),
      j_effectiveness_history = Some (effectiveness_history p)\<rparr>"

definition save_patterns :: "GenerativeBehaviorModel \<Rightarrow> string \<Rightarrow> filesystem \<Rightarrow> filesystem" where
  "save_patterns m filename fs =
     (let pattern_data = foldl (\<lambda>d kp. AList.update (fst kp) (pattern_to_entry (snd kp)) d) []
                               (patterns m)
      in fs(filename \<mapsto> PatternData pattern_data))"

definition ActionType_of_value :: "string \<Rightarrow> py_error + ActionType" where
  \<comment> \<open>\<open>ActionType(action_str)\<close>: the member with that value, or \<open>ValueError\<close>.\<close>
  "ActionType_of_value s =
     (if s = ''eat'' then Inr EAT
      else if s = ''work'' then Inr WORK
      else if s = ''sleep'' then Inr SLEEP
      else if s = ''socialize'' then Inr SOCIALIZE
      else if s = ''idle'' then Inr IDLE
      else Inl (ValueError s))"

fun actions_of_values :: "string list \<Rightarrow> py_error + ActionType list" where
  "actions_of_values [] = Inr []"
| "actions_of_values (s # ss) =
     (case ActionType_of_value s of
        Inl e \<Rightarrow> Inl e
      | Inr a \<Rightarrow> (case actions_of_values ss of Inl e \<Rightarrow> Inl e | Inr as \<Rightarrow> Inr (a # as)))"

definition load_entry ::
  "GenerativeBehaviorModel \<Rightarrow> string \<times> pattern_entry \<Rightarrow> py_error + GenerativeBehaviorModel" where
  \<comment> \<open>One pass of the loop of \<open>load_patterns\<close>, in the order in which Python evaluates it.\<close>
  "load_entry m kd =
     (case kd of (pid, data) \<Rightarrow>
      case j_actions data of
        None \<Rightarrow> Inl (KeyError ''actions'')
      | Some strs \<Rightarrow>
         (case actions_of_values strs of
            Inl e \<Rightarrow> Inl e
          | Inr acts \<Rightarrow>
             (case j_conditions data of
                None \<Rightarrow> Inl (KeyError ''conditions'')
              | Some conds \<Rightarrow>
                 (case j_success_rate data of
                    None \<Rightarrow> Inl (KeyError ''success_rate'')
                  | Some sr \<Rightarrow>
                     (case j_usage_count data of
                        None \<Rightarrow> Inl (KeyError ''usage_count'')
                      | Some uc \<Rightarrow>
                          let pattern = (new_BehaviorPattern pid conds acts sr uc)
                                \<lparr>effectiveness_history :=
                                   (case j_effectiveness_history data of None \<Rightarrow> [] | Some h \<Rightarrow> h)\<rparr>
                          in Inr (m\<lparr>patterns := AList.update pid pattern (patterns m)\<rparr>))))))"

fun load_entries ::
  "GenerativeBehaviorModel \<Rightarrow> (string \<times> pattern_entry) list \<Rightarrow> py_error + GenerativeBehaviorModel" where
  "load_entries m [] = Inr m"
| "load_entries m (kd # rest) =
     (case load_entry m kd of Inl e \<Rightarrow> Inl e | Inr m' \<Rightarrow> load_entries m' rest)"

definition load_patterns ::
  "GenerativeBehaviorModel \<Rightarrow> string \<Rightarrow> filesystem \<Rightarrow> py_error + GenerativeBehaviorModel" where
  \<comment> \<open>Only \<open>FileNotFoundError\<close> is caught: the first case. Every other exception leaves
      the function.\<close>
  "load_patterns m filename fs =
     (case fs filename of
        None \<Rightarrow> Inr m
      | Some NotJSON \<Rightarrow> Inl JSONDecodeError
      | Some NotAnObject \<Rightarrow> Inl (AttributeError ''items'')
      | Some (PatternData pattern_data) \<Rightarrow> load_entries m pattern_data)"

definition persisted_fields ::
  "string \<times> BehaviorPattern \<Rightarrow> string \<times> (string \<times> cond_value) list \<times> ActionType list \<times> real \<times> int" where
  \<comment> \<open>The key of a store entry with the conditions, actions, success rate and usage count.\<close>
  "persisted_fields kp =
     (fst kp, conditions (snd kp), actions (snd kp), success_rate (snd kp), usage_count (snd kp))"

definition reloaded :: "string \<times> BehaviorPattern \<Rightarrow> string \<times> BehaviorPattern" where
  \<comment> \<open>A store entry as it comes back from the file: the id is the key, the recency counter 0.\<close>
  "reloaded kp = (fst kp, (snd kp)\<lparr>pattern_id := fst kp, last_used := 0\<rparr>)"

section \<open>environment.py\<close>

text \<open>
  Of the environment, the social-interaction phase reads the occupants of each location and
  writes the social network and the interaction counter. Weather, resources and events are left
  out. Agent ids are the indices \<open>0, 1, ...\<close> that \<open>_create_agents\<close> hands out.
\<close>

datatype LocationType = HOME | WORKPLACE | RESTAURANT | SOCIAL_AREA | PARK

record Location =
  loc_name :: string
  location_type :: LocationType
  loc_position :: "real \<times> real"
  capacity :: nat
  current_occupants :: "nat list"

record SimulationEnvironment =
  locations :: "(string \<times> Location) list"
  social_network :: "(nat \<times> (nat \<times> real) list) list"
  total_interactions :: int

definition connections_of :: "(nat \<times> (nat \<times> real) list) list \<Rightarrow> nat \<Rightarrow> (nat \<times> real) list" where
  \<comment> \<open>\<open>self.social_network[agent_id]\<close>, read after the key has been created.\<close>
  "connections_of sn agent = (case map_of sn agent of None \<Rightarrow> [] | Some d \<Rightarrow> d)"

definition create_social_connection ::
  "SimulationEnvironment \<Rightarrow> nat \<Rightarrow> nat \<Rightarrow> real \<Rightarrow> SimulationEnvironment" where
  "create_social_connection env agent1_id agent2_id strength' =
     (let sn0 = social_network env;
          sn1 = (if map_of sn0 agent1_id = None then AList.update agent1_id [] sn0 else sn0);
          sn2 = (if map_of sn1 agent2_id = None then AList.update agent2_id [] sn1 else sn1);
          current_strength1 = (case map_of (connections_of sn2 agent1_id) agent2_id of
                                 None \<Rightarrow> 0 | Some s \<Rightarrow> s);
          current_strength2 = (case map_of (connections_of sn2 agent2_id) agent1_id of
                                 None \<Rightarrow> 0 | Some s \<Rightarrow> s);
          sn3 = AList.update agent1_id
                  (AList.update agent2_id (min 1 (current_strength1 + strength'))
                     (connections_of sn2 agent1_id)) sn2;
          sn4 = AList.update agent2_id
                  (AList.update agent1_id (min 1 (current_strength2 + strength'))
                     (connections_of sn3 agent2_id)) sn3
      in env\<lparr>social_network := sn4, total_interactions := total_interactions env + 1\<rparr>)"

section \<open>simulation.py\<close>

text \<open>
  The engine: its agents, environment and behavior model, the time step, the two statistics
  that the phases below touch, and the events handed to \<open>trigger_event\<close> (which catches
  whatever a callback raises, so it never fails itself).
\<close>

datatype event =
    Social_interaction string string string real
  | Agent_action string string bool bool real

record SimulationEngine =
  agents :: "VirtualHuman list"
  environment :: SimulationEnvironment
  behavior_model :: GenerativeBehaviorModel
  time_step :: real
  social_interactions :: int
  total_time :: real
  triggered :: "event list"

definition trigger_event :: "SimulationEngine \<Rightarrow> event \<Rightarrow> SimulationEngine" where
  "trigger_event eng ev = eng\<lparr>triggered := triggered eng @ [ev]\<rparr>"

definition agent_at :: "VirtualHuman list \<Rightarrow> nat \<Rightarrow> py_error + VirtualHuman" where
  \<comment> \<open>\<open>self.agents[agent_id]\<close>\<close>
  "agent_at as i = (if i < length as then Inr (as ! i) else Inl IndexError)"

definition satisfy_social :: "VirtualHuman \<Rightarrow> py_error + VirtualHuman" where
  \<comment> \<open>\<open>agent.needs['social'].satisfy(0.1)\<close>\<close>
  "satisfy_social a =
     (case needs_getitem (needs a) ''social'' of
        Inl e \<Rightarrow> Inl e
      | Inr n \<Rightarrow> Inr (a\<lparr>needs := needs_setitem (needs a) ''social'' (Need_satisfy n 0.1)\<rparr>))"

definition interact ::
  "string \<Rightarrow> nat \<Rightarrow> nat \<Rightarrow> SimulationEngine \<times> runtime \<Rightarrow> py_error + SimulationEngine \<times> runtime" where
  \<comment> \<open>The body of the inner loop of \<open>process_social_interactions\<close> for one pair.\<close>
  "interact location_name agent1_id agent2_id st =
     (case st of (eng, rt) \<Rightarrow>
      case agent_at (agents eng) agent1_id of Inl e \<Rightarrow> Inl e | Inr agent1 \<Rightarrow>
      case agent_at (agents eng) agent2_id of Inl e \<Rightarrow> Inl e | Inr agent2 \<Rightarrow>
      if current_action agent1 = SOCIALIZE \<or> current_action agent2 = SOCIALIZE then
        let interaction_prob =
              (extraversion (personality agent1) + extraversion (personality agent2)) / 2
              * (agreeableness (personality agent1) + agreeableness (personality agent2)) / 2
        in (case random_random rt of (r, rt1) \<Rightarrow>
            if r < interaction_prob * 0.3 then
              let eng1 = eng\<lparr>environment :=
                              create_social_connection (environment eng) agent1_id agent2_id 0.05\<rparr>
              in (case satisfy_social agent1 of Inl e \<Rightarrow> Inl e | Inr agent1' \<Rightarrow>
                  let eng2 = eng1\<lparr>agents := (agents eng1)[agent1_id := agent1']\<rparr> in
                  case agent_at (agents eng2) agent2_id of Inl e \<Rightarrow> Inl e | Inr agent2_now \<Rightarrow>
                  case satisfy_social agent2_now of Inl e \<Rightarrow> Inl e | Inr agent2' \<Rightarrow>
                  let eng3 = eng2\<lparr>agents := (agents eng2)[agent2_id := agent2'],
                                    social_interactions := social_interactions eng2 + 1\<rparr>
                  in Inr (trigger_event eng3
                            (Social_interaction (name agent1) (name agent2) location_name
                               (total_time eng3)), rt1))
            else Inr (eng, rt1))
      else Inr (eng, rt))"

fun with_later_occupants ::
  "string \<Rightarrow> nat \<Rightarrow> nat list \<Rightarrow> SimulationEngine \<times> runtime \<Rightarrow> py_error + SimulationEngine \<times> runtime" where
  \<comment> \<open>\<open>for agent2_id in location.current_occupants[i+1:]\<close>\<close>
  "with_later_occupants location_name agent1_id [] st = Inr st"
| "with_later_occupants location_name agent1_id (agent2_id # rest) st =
     (case interact location_name agent1_id agent2_id st of
        Inl e \<Rightarrow> Inl e
      | Inr st' \<Rightarrow> with_later_occupants location_name agent1_id rest st')"

fun each_occupant ::
  "string \<Rightarrow> nat list \<Rightarrow> SimulationEngine \<times> runtime \<Rightarrow> py_error + SimulationEngine \<times> runtime" where
  \<comment> \<open>\<open>for i, agent1_id in enumerate(location.current_occupants)\<close>\<close>
  "each_occupant location_name [] st = Inr st"
| "each_occupant location_name (agent1_id # rest) st =
     (case with_later_occupants location_name agent1_id rest st of
        Inl e \<Rightarrow> Inl e
      | Inr st' \<Rightarrow> each_occupant location_name rest st')"

fun each_location ::
  "Location list \<Rightarrow> SimulationEngine \<times> runtime \<Rightarrow> py_error + SimulationEngine \<times> runtime" where
  "each_location [] st = Inr st"
| "each_location (location # rest) st =
     (if length (current_occupants location) > 1
      then (case each_occupant (loc_name location) (current_occupants location) st of
              Inl e \<Rightarrow> Inl e
            | Inr st' \<Rightarrow> each_location rest st')
      else each_location rest st)"

definition process_social_interactions ::
  "SimulationEngine \<Rightarrow> runtime \<Rightarrow> py_error + SimulationEngine \<times> runtime" where
  "process_social_interactions eng rt =
     each_location (map snd (locations (environment eng))) (eng, rt)"

text \<open>
  \<open>apply_behavior_model_suggestions\<close> calls \<open>self.perform_action\<close> on the engine. The
  class \<open>SimulationEngine\<close> has the attributes listed here (those set in \<open>__init__\<close>
  and its methods) and no \<open>perform_action\<close>, which is a method of \<open>VirtualHuman\<close>: the
  attribute lookup raises \<open>AttributeError\<close>, with the agent's action and duration already
  overridden. The statements after the call are never reached. The error carries the engine as
  it is when the exception leaves the function.
\<close>

definition SimulationEngine_attributes :: "string list" where
  "SimulationEngine_attributes =
     [''num_agents'', ''world_size'', ''environment'', ''behavior_model'', ''agents'', ''metrics'',
      ''running'', ''paused'', ''simulation_speed'', ''time_step'', ''real_time_factor'', ''stats'',
      ''step_start_time'', ''event_callbacks'', ''log_data'', ''log_interval'', ''last_log_time'',
      ''_create_agents'', ''add_event_callback'', ''trigger_event'', ''update_agent_locations'',
      ''process_social_interactions'', ''apply_behavior_model_suggestions'',
      ''update_simulation_statistics'', ''log_simulation_data'', ''step'', ''run'', ''pause'',
      ''resume'', ''stop'', ''set_speed'', ''get_agent_by_id'', ''get_agent_by_name'',
      ''get_simulation_state'', ''save_log_data'', ''load_log_data'']"

fun suggest_to_agents ::
  "nat \<Rightarrow> nat \<Rightarrow> SimulationEngine \<Rightarrow> runtime
   \<Rightarrow> (py_error \<times> SimulationEngine) + SimulationEngine \<times> runtime" where
  \<comment> \<open>\<open>for agent in self.agents\<close>: \<open>n\<close> agents are left, the next one is at index \<open>i\<close>.\<close>
  "suggest_to_agents 0 i eng rt = Inr (eng, rt)"
| "suggest_to_agents (Suc n) i eng rt =
     (if i < length (agents eng) then
        (case suggest_action rt (behavior_model eng) (agents eng ! i) of
           (suggested_action, bm, rt1) \<Rightarrow>
             let eng1 = eng\<lparr>behavior_model := bm\<rparr> in
             (case suggested_action of
                None \<Rightarrow> suggest_to_agents n (Suc i) eng1 rt1
              | Some act \<Rightarrow>
                  (case random_uniform rt1 1 3 of (d, rt2) \<Rightarrow>
                   let agent' = (agents eng1 ! i)\<lparr>current_action := act, action_duration := d\<rparr>;
                       eng2 = eng1\<lparr>agents := (agents eng1)[i := agent']\<rparr>
                   in Inl (AttributeError ''perform_action'', eng2))))
      else Inr (eng, rt))"

definition apply_behavior_model_suggestions ::
  "SimulationEngine \<Rightarrow> runtime \<Rightarrow> (py_error \<times> SimulationEngine) + SimulationEngine \<times> runtime" where
  "apply_behavior_model_suggestions eng rt = suggest_to_agents (length (agents eng)) 0 eng rt"

section \<open>Concrete values\<close>

text \<open>
  A concrete agent as \<open>VirtualHuman.__init__\<close> can create it (every sampled quantity is
  inside the range it is drawn from), with hunger 50 and money 10 set afterwards.
\<close>

definition initial_habits :: "ActionType \<rightharpoonup> Habit" where
  "initial_habits =
     [EAT \<mapsto> \<lparr>action = EAT, strength = 0.2, time_preference = 0.5, success_count = 0, total_attempts = 0\<rparr>,
      WORK \<mapsto> \<lparr>action = WORK, strength = 0.2, time_preference = 0.5, success_count = 0, total_attempts = 0\<rparr>,
      SLEEP \<mapsto> \<lparr>action = SLEEP, strength = 0.2, time_preference = 0.5, success_count = 0, total_attempts = 0\<rparr>,
      SOCIALIZE \<mapsto> \<lparr>action = SOCIALIZE, strength = 0.2, time_preference = 0.5, success_count = 0, total_attempts = 0\<rparr>]"

definition example_agent :: VirtualHuman where
  "example_agent =
     \<lparr>agent_id = 0, name = ''Alex_1'',
      needs = \<lparr>hunger = \<lparr>val = 50, decay_rate = 2, satisfaction_threshold = 30\<rparr>,
               energy = \<lparr>val = 70, decay_rate = 1.5, satisfaction_threshold = 30\<rparr>,
               happiness = \<lparr>val = 60, decay_rate = 0.8, satisfaction_threshold = 30\<rparr>,
               social_need = \<lparr>val = 40, decay_rate = 1, satisfaction_threshold = 30\<rparr>\<rparr>,
      money = 10, mood = 0.5,
      personality = \<lparr>discipline = 0.5, sociability = 0.5, ambition = 0.5, creativity = 0.5,
                     openness = 0.5, conscientiousness = 0.5, extraversion = 0.5,
                     agreeableness = 0.5, neuroticism = 0.5\<rparr>,
      habits = initial_habits,
      current_action = IDLE, action_duration = 0, position = (20, 20), energy_level = 0.75,
      decision_weights = \<lparr>need_urgency = 0.4, habit_strength = 0.2, personality_w = 0.2,
                           money_factor = 0.1, mood_factor = 0.1\<rparr>,
      learning_rate = 0.1, action_rewards = (\<lambda>_. 0), action_counts = (\<lambda>_. 0),
      memory = [], total_actions = 0, action_history = [], satisfaction_history = []\<rparr>"

definition example_runtime :: runtime where
  \<comment> \<open>Every \<open>random()\<close> gives 0.5, every integer draw 0, and the clock stands at noon.\<close>
  "example_runtime = \<lparr>rand_floats = sconst 0.5, rand_ints = sconst 0, clock = sconst 43200\<rparr>"

definition lucky_runtime :: runtime where
  \<comment> \<open>Every \<open>random()\<close> gives 0.05.\<close>
  "lucky_runtime = \<lparr>rand_floats = sconst 0.05, rand_ints = sconst 0, clock = sconst 43200\<rparr>"

definition example_pattern :: BehaviorPattern where
  "example_pattern =
     \<lparr>pattern_id = ''pattern_0_1'',
      conditions = [(''hunger'', Number 50), (''energy'', Number 70)],
      actions = [EAT],
      success_rate = 0.9, usage_count = 6, last_used = 7,
      effectiveness_history = [True, True, True, True, True, False]\<rparr>"

definition poor_pattern :: BehaviorPattern where
  \<comment> \<open>The pattern of the scenario: used 10 times, success rate 0.1.\<close>
  "poor_pattern =
     \<lparr>pattern_id = ''pattern_1_0'',
      conditions = [(''hunger'', Number 20)],
      actions = [WORK, SLEEP],
      success_rate = 0.1, usage_count = 10, last_used = 3,
      effectiveness_history = [False, False, False, False, False, False, False, False, False, True]\<rparr>"

definition example_model :: GenerativeBehaviorModel where
  "example_model =
     new_GenerativeBehaviorModel
       \<lparr>patterns := [(''pattern_0_1'', example_pattern), (''pattern_1_0'', poor_pattern)],
        pattern_counter := 2\<rparr>"

definition second_model :: GenerativeBehaviorModel where
  \<comment> \<open>The same two patterns in the other order: the pattern that qualifies is the second.\<close>
  "second_model =
     new_GenerativeBehaviorModel
       \<lparr>patterns := [(''pattern_1_0'', poor_pattern), (''pattern_0_1'', example_pattern)],
        pattern_counter := 2\<rparr>"

definition earlier_mutation :: BehaviorPattern where
  \<comment> \<open>A mutation of \<open>example_pattern\<close> that an earlier run created with counter 0 and saved.\<close>
  "earlier_mutation =
     \<lparr>pattern_id = ''mutation_0_pattern_0_1'',
      conditions = [(''hunger'', Number 1), (''energy'', Number 1)],
      actions = [EAT],
      success_rate = 0.5, usage_count = 2, last_used = 7,
      effectiveness_history = [True, False]\<rparr>"

definition reloaded_model :: GenerativeBehaviorModel where
  \<comment> \<open>A new model after \<open>load_patterns\<close>: the counter is 0 again.\<close>
  "reloaded_model =
     new_GenerativeBehaviorModel
       \<lparr>patterns := [(''pattern_0_1'', example_pattern),
                     (''mutation_0_pattern_0_1'', earlier_mutation)]\<rparr>"

definition example_engine :: SimulationEngine where
  \<comment> \<open>Two agents in the community center, the first one socializing; both fully extravert
      and agreeable.\<close>
  "example_engine =
     \<lparr>agents =
        [example_agent\<lparr>current_action := SOCIALIZE,
                       personality := (personality example_agent)\<lparr>extraversion := 1, agreeableness := 1\<rparr>\<rparr>,
         example_agent\<lparr>agent_id := 1, name := ''Sam_2'',
                       personality := (personality example_agent)\<lparr>extraversion := 1, agreeableness := 1\<rparr>\<rparr>],
      environment =
        \<lparr>locations =
           [(''Home District'',
             \<lparr>loc_name = ''Home District'', location_type = HOME, loc_position = (20, 20),
              capacity = 50, current_occupants = []\<rparr>),
            (''Community Center'',
             \<lparr>loc_name = ''Community Center'', location_type = SOCIAL_AREA, loc_position = (30, 70),
              capacity = 40, current_occupants = [0, 1]\<rparr>)],
         social_network = [], total_interactions = 0\<rparr>,
      behavior_model = example_model,
      time_step = 0.1, social_interactions = 0, total_time = 0, triggered = []\<rparr>"

section \<open>Need values stay in range\<close>

lemma Need_update_lower: "0 \<le> val (Need_update n dt)"
  by (simp add: Need_update_def)

lemma Need_satisfy_upper: "val (Need_satisfy n amount) \<le> 100"
  by (simp add: Need_satisfy_def)

lemma Need_update_keeps:
  "0 \<le> val n \<Longrightarrow> val n \<le> 100 \<Longrightarrow> 0 \<le> decay_rate n \<Longrightarrow> 0 \<le> dt
   \<Longrightarrow> val (Need_update n dt) \<le> 100 \<and> decay_rate (Need_update n dt) = decay_rate n"
proof -
  assume h: "0 \<le> val n" "val n \<le> 100" "0 \<le> decay_rate n" "0 \<le> dt"
  have "0 \<le> decay_rate n * dt" using h by simp
  then have "val n - decay_rate n * dt \<le> 100" using h by linarith
  then show ?thesis by (simp add: Need_update_def)
qed

lemma Need_satisfy_keeps:
  "0 \<le> val n \<Longrightarrow> 0 \<le> amount
   \<Longrightarrow> 0 \<le> val (Need_satisfy n amount) \<and> decay_rate (Need_satisfy n amount) = decay_rate n"
  by (simp add: Need_satisfy_def)

lemma apply_call_keeps:
  assumes "0 \<le> val n" "val n \<le> 100" "0 \<le> decay_rate n" "0 \<le> call_arg c"
  shows "0 \<le> val (apply_call n c) \<and> val (apply_call n c) \<le> 100
         \<and> 0 \<le> decay_rate (apply_call n c)"
proof (cases c)
  case (Update dt)
  with assms show ?thesis
    using Need_update_lower [of n dt] Need_update_keeps [of n dt] by simp
next
  case (Satisfy amount)
  with assms show ?thesis
    using Need_satisfy_upper [of n amount] Need_satisfy_keeps [of n amount] by simp
qed

lemma apply_calls_keeps:
  "0 \<le> val n \<Longrightarrow> val n \<le> 100 \<Longrightarrow> 0 \<le> decay_rate n \<Longrightarrow> list_all (\<lambda>c. 0 \<le> call_arg c) cs
   \<Longrightarrow> 0 \<le> val (foldl apply_call n cs) \<and> val (foldl apply_call n cs) \<le> 100"
proof (induction cs arbitrary: n)
  case Nil
  then show ?case by simp
next
  case (Cons c cs)
  from Cons.prems have "0 \<le> call_arg c" and rest: "list_all (\<lambda>c. 0 \<le> call_arg c) cs"
    by simp_all
  with Cons.prems have "0 \<le> val (apply_call n c) \<and> val (apply_call n c) \<le> 100
      \<and> 0 \<le> decay_rate (apply_call n c)"
    using apply_call_keeps [of n c] by simp
  with rest show ?case
    using Cons.IH [of "apply_call n c"] by simp
qed

text \<open>
  Claim C4. A \<open>Need\<close> whose value starts in \<open>[0, 100]\<close> and whose decay rate is not
  negative (the data model's \<open>decayRate \<ge> 0\<close>) keeps its value in \<open>[0, 100]\<close> through
  any finite sequence of \<open>update(dt)\<close> and \<open>satisfy(amount)\<close> calls with arguments that
  are not negative. Besides, with no assumption at all, \<open>update\<close> never leaves the value
  below 0 and \<open>satisfy\<close> never leaves it above 100.
\<close>

theorem need_value_stays_in_range:
  "0 \<le> val (Need_update n0 dt)
   \<and> val (Need_satisfy n0 amount) \<le> 100
   \<and> (0 \<le> val n \<and> val n \<le> 100 \<and> 0 \<le> decay_rate n \<and> list_all (\<lambda>c. 0 \<le> call_arg c) cs
      \<longrightarrow> 0 \<le> val (apply_calls n cs) \<and> val (apply_calls n cs) \<le> 100)"
  using Need_update_lower [of n0 dt] Need_satisfy_upper [of n0 amount] apply_calls_keeps [of n cs]
  by (simp add: apply_calls_def)

theorem need_value_stays_in_range_witness:
  "val (apply_calls \<lparr>val = 50, decay_rate = 2, satisfaction_threshold = 30\<rparr>
          [Update 30, Satisfy 120, Update 1]) = 98
   \<and> val (Need_update \<lparr>val = 50, decay_rate = 2, satisfaction_threshold = 30\<rparr> 30) = 0
   \<and> val (Need_satisfy \<lparr>val = 50, decay_rate = 2, satisfaction_threshold = 30\<rparr> 120) = 100"
  using need_value_stays_in_range
    [of "\<lparr>val = 50, decay_rate = 2, satisfaction_threshold = 30\<rparr>" 30 120
        "\<lparr>val = 50, decay_rate = 2, satisfaction_threshold = 30\<rparr>"
        "[Update 30, Satisfy 120, Update 1]"]
  by (simp add: apply_calls_def Need_update_def Need_satisfy_def)

section \<open>Effects of \<open>perform_action\<close> on hunger and money\<close>

lemma record_outcome_money: "money (record_outcome now a act s r c) = money a"
  by (simp add: record_outcome_def Let_def split: option.splits)

lemma record_outcome_needs: "needs (record_outcome now a act s r c) = needs a"
  by (simp add: record_outcome_def Let_def split: option.splits)

text \<open>
  Claim C5. On an agent with hunger 50 and money 10, whatever its other fields are,
  \<open>perform_action(EAT, 1.0)\<close> leaves hunger at 20 and money at 5 and returns
  \<open>True\<close>.
\<close>

theorem eat_scenario:
  "val (hunger (needs a)) = 50 \<and> money a = 10 \<longrightarrow>
     val (hunger (needs (fst (perform_action now a EAT 1)))) = 20
     \<and> money (fst (perform_action now a EAT 1)) = 5
     \<and> snd (perform_action now a EAT 1) = True"
  by (simp add: perform_action_def record_outcome_money record_outcome_needs Let_def set_val_def)

theorem eat_scenario_witness:
  "val (hunger (needs example_agent)) = 50 \<and> money example_agent = 10
   \<and> val (hunger (needs (fst (perform_action 0 example_agent EAT 1)))) = 20
   \<and> money (fst (perform_action 0 example_agent EAT 1)) = 5
   \<and> snd (perform_action 0 example_agent EAT 1) = True"
  using eat_scenario [of example_agent 0]
  by (simp add: example_agent_def)

lemma action_effect_money:
  assumes "0 \<le> money a" "0 < dt" "dt \<le> 1" "0 \<le> ambition (personality a)"
  shows "0 \<le> money (fst (action_effect a act dt))"
proof (cases act)
  case EAT
  with assms show ?thesis by (auto simp: Let_def)
next
  case WORK
  have "0 \<le> (10 + ambition (personality a) * 5) * dt" using assms by simp
  with WORK assms show ?thesis by (auto simp: Let_def)
next
  case SLEEP
  with assms show ?thesis by (auto simp: Let_def)
next
  case SOCIALIZE
  with assms show ?thesis by (auto simp: Let_def)
next
  case IDLE
  with assms show ?thesis by simp
qed

text \<open>
  Claim C7, as the code has it. The feasibility tests compare money with the constants 5 and
  3, while the deduction is \<open>5 * dt\<close> and \<open>3 * dt\<close>. So money stays non-negative
  for a time step \<open>0 < dt \<le> 1\<close> (the engine's step is 0.1), on an agent whose ambition
  trait is not negative (traits are in \<open>[0, 1]\<close>; \<open>WORK\<close> adds
  \<open>(10 + 5 * ambition) * dt\<close>).
\<close>

theorem money_stays_nonnegative:
  "0 \<le> money a \<Longrightarrow> 0 < dt \<Longrightarrow> dt \<le> 1 \<Longrightarrow> 0 \<le> ambition (personality a)
   \<Longrightarrow> 0 \<le> money (fst (perform_action now a act dt))"
proof -
  assume h: "0 \<le> money a" "0 < dt" "dt \<le> 1" "0 \<le> ambition (personality a)"
  obtain a' s r c where e: "action_effect a act dt = (a', s, r, c)"
    by (cases "action_effect a act dt") auto
  have "0 \<le> money a'" using action_effect_money [OF h, of act] e by simp
  then show ?thesis by (simp add: perform_action_def e record_outcome_money)
qed

theorem money_stays_nonnegative_witness:
  "0 \<le> money example_agent \<and> (0::real) < 1 \<and> (1::real) \<le> 1
   \<and> 0 \<le> ambition (personality example_agent)
   \<and> 0 \<le> money (fst (perform_action 0 example_agent EAT 1))"
  using money_stays_nonnegative [of example_agent 1 0 EAT]
  by (simp add: example_agent_def)

text \<open>
  Claim C7 as stated (every \<open>dt > 0\<close>) fails: with money 5 and hunger 50 the test
  \<open>money >= 5\<close> passes, and \<open>EAT\<close> with \<open>dt = 2\<close> deducts 10.
\<close>

theorem money_negative_counterexample:
  "0 \<le> money (example_agent\<lparr>money := 5\<rparr>) \<and> (0::real) < 2
   \<and> money (fst (perform_action 0 (example_agent\<lparr>money := 5\<rparr>) EAT 2)) = -5"
  by (simp add: perform_action_def record_outcome_money example_agent_def Let_def set_val_def)

section \<open>\<open>evolve_behavior\<close> reads a key that no memory record has\<close>

lemma memory_getitem_keys: "(\<exists>v. memory_getitem m k = Inr v) \<longleftrightarrow> k \<in> set memory_keys"
  by (simp add: memory_getitem_def memory_keys_def)

lemma memory_getitem_satisfaction_gain:
  "memory_getitem m ''satisfaction_gain'' = Inl (KeyError ''satisfaction_gain'')"
  by (simp add: memory_getitem_def)

lemma tally_memory_raises: "tally_memory perf m = Inl (KeyError ''satisfaction_gain'')"
  by (simp add: tally_memory_def Let_def memory_getitem_satisfaction_gain)

lemma tally_all_raises: "ms \<noteq> [] \<Longrightarrow> tally_all perf ms = Inl (KeyError ''satisfaction_gain'')"
  by (cases ms) (simp_all add: tally_memory_raises)

lemma last_n_nonempty: "xs \<noteq> [] \<Longrightarrow> 0 < n \<Longrightarrow> last_n n xs \<noteq> []"
  by (cases xs rule: rev_cases) (auto simp: last_n_def)

text \<open>
  Claim C3. With fewer than 10 memory records \<open>evolve_behavior\<close> changes nothing. With
  10 or more it raises \<open>KeyError('satisfaction_gain')\<close> on the first record it tallies:
  the records that \<open>perform_action\<close> appends have no such key, so no habit is ever
  strengthened or weakened.
\<close>

theorem evolve_behavior_outcome:
  "evolve_behavior a =
     (if length (memory a) < 10 then Inr a else Inl (KeyError ''satisfaction_gain''))"
proof (cases "length (memory a) < 10")
  case True
  then show ?thesis by (simp add: evolve_behavior_def)
next
  case False
  then have "memory a \<noteq> []" by auto
  then have "last_n 20 (memory a) \<noteq> []" by (simp add: last_n_nonempty)
  then have "tally_all [] (last_n 20 (memory a)) = Inl (KeyError ''satisfaction_gain'')"
    by (rule tally_all_raises)
  with False show ?thesis by (simp add: evolve_behavior_def)
qed

lemma action_effect_memory: "memory (fst (action_effect a act dt)) = memory a"
  by (cases act) (simp_all add: Let_def)

lemma record_outcome_memory_length:
  "length (memory a) < 100
   \<Longrightarrow> length (memory (record_outcome now a act s r c)) = Suc (length (memory a))"
  by (simp add: record_outcome_def Let_def split: option.splits)

lemma perform_action_memory_length:
  "length (memory a) < 100
   \<Longrightarrow> length (memory (fst (perform_action now a act dt))) = Suc (length (memory a))"
proof -
  assume h: "length (memory a) < 100"
  obtain a' s r c where e: "action_effect a act dt = (a', s, r, c)"
    by (cases "action_effect a act dt") auto
  have "memory a' = memory a" using action_effect_memory [of a act dt] e by simp
  with h show ?thesis
    by (simp add: perform_action_def e record_outcome_memory_length)
qed

lemma repeat_action_memory_length:
  "length (memory a) + n \<le> 100
   \<Longrightarrow> length (memory (repeat_action n now a act dt)) = length (memory a) + n"
proof (induction n arbitrary: a)
  case 0
  then show ?case by simp
next
  case (Suc n)
  then have "length (memory (fst (perform_action now a act dt))) = Suc (length (memory a))"
    by (simp add: perform_action_memory_length)
  with Suc.prems show ?case
    using Suc.IH [of "fst (perform_action now a act dt)"] by simp
qed

theorem evolve_behavior_outcome_witness:
  "evolve_behavior example_agent = Inr example_agent
   \<and> evolve_behavior (repeat_action 10 0 example_agent IDLE 0.1) = Inl (KeyError ''satisfaction_gain'')"
proof -
  have "length (memory (repeat_action 10 0 example_agent IDLE 0.1)) = 10"
    using repeat_action_memory_length [where a = example_agent and n = 10 and now = 0 and act = IDLE and dt = "0.1"]
    by (simp add: example_agent_def)
  then show ?thesis
    using evolve_behavior_outcome [of example_agent]
      evolve_behavior_outcome [of "repeat_action 10 0 example_agent IDLE 0.1"]
    by (simp add: example_agent_def)
qed

section \<open>What \<open>suggest_action\<close> changes in the store\<close>

lemma max_by_split:
  "\<exists>ys zs. best # xs = ys @ max_by f best xs # zs
           \<and> (\<forall>y \<in> set ys. f y < f (max_by f best xs))
           \<and> (\<forall>z \<in> set zs. f z \<le> f (max_by f best xs))"
proof (induction xs arbitrary: best)
  case Nil
  show ?case by (rule exI [of _ "[]"], rule exI [of _ "[]"]) simp
next
  case (Cons x xs)
  show ?case
  proof (cases "f x > f best")
    case True
    then have M: "max_by f best (x # xs) = max_by f x xs" by simp
    from Cons.IH [of x] obtain ys zs where s: "x # xs = ys @ max_by f x xs # zs"
      and lt: "\<forall>y \<in> set ys. f y < f (max_by f x xs)"
      and le: "\<forall>z \<in> set zs. f z \<le> f (max_by f x xs)" by blast
    have "x \<in> set (x # xs)" by simp
    then have "x \<in> set (ys @ max_by f x xs # zs)" by (simp only: s)
    then have "f x \<le> f (max_by f x xs)" using lt le by auto
    with True have b: "f best < f (max_by f x xs)" by simp
    have e: "best # x # xs = (best # ys) @ max_by f x xs # zs" by (simp add: s [symmetric])
    have l: "\<forall>y \<in> set (best # ys). f y < f (max_by f x xs)" using lt b by simp
    have K: "best # x # xs = (best # ys) @ max_by f best (x # xs) # zs
             \<and> (\<forall>y \<in> set (best # ys). f y < f (max_by f best (x # xs)))
             \<and> (\<forall>z \<in> set zs. f z \<le> f (max_by f best (x # xs)))"
      unfolding M by (intro conjI e l le)
    show ?thesis by (rule exI [of _ "best # ys"], rule exI [of _ zs], rule K)
  next
    case False
    then have M: "max_by f best (x # xs) = max_by f best xs" by simp
    from Cons.IH [of best] obtain ys zs where s: "best # xs = ys @ max_by f best xs # zs"
      and lt: "\<forall>y \<in> set ys. f y < f (max_by f best xs)"
      and le: "\<forall>z \<in> set zs. f z \<le> f (max_by f best xs)" by blast
    show ?thesis
    proof (cases ys)
      case Nil
      have "best # xs = max_by f best xs # zs" using s unfolding Nil by (simp only: append_Nil)
      note mz = this [unfolded list.inject]
      from mz have m: "max_by f best xs = best" by (rule conjunct1 [THEN sym])
      from mz have z: "zs = xs" by (rule conjunct2 [THEN sym])
      have l: "\<forall>z \<in> set (x # xs). f z \<le> f best" using False le m z by auto
      have K: "best # x # xs = [] @ max_by f best (x # xs) # (x # xs)
             \<and> (\<forall>y \<in> set []. f y < f (max_by f best (x # xs)))
             \<and> (\<forall>z \<in> set (x # xs). f z \<le> f (max_by f best (x # xs)))"
        unfolding M m using l by simp
      show ?thesis by (rule exI [of _ "[]"], rule exI [of _ "x # xs"], rule K)
    next
      case (Cons y ys')
      have "best # xs = (y # ys') @ max_by f best xs # zs" using s unfolding Cons .
      note yz = this [unfolded append_Cons list.inject]
      from yz have y: "y = best" by (rule conjunct1 [THEN sym])
      from yz have r: "xs = ys' @ max_by f best xs # zs" by (rule conjunct2)
      have bl: "f best < f (max_by f best xs)" using lt Cons y by simp
      have e: "best # x # xs = (best # x # ys') @ max_by f best xs # zs"
        by (simp add: r [symmetric])
      have l: "\<forall>y \<in> set (best # x # ys'). f y < f (max_by f best xs)"
        using lt Cons bl False by auto
      have K: "best # x # xs = (best # x # ys') @ max_by f best (x # xs) # zs
             \<and> (\<forall>y \<in> set (best # x # ys'). f y < f (max_by f best (x # xs)))
             \<and> (\<forall>z \<in> set zs. f z \<le> f (max_by f best (x # xs)))"
        unfolding M by (intro conjI e l le)
      show ?thesis by (rule exI [of _ "best # x # ys'"], rule exI [of _ zs], rule K)
    qed
  qed
qed

lemma indexed_mem:
  "(i, p) \<in> set (zip [0 ..< length ps] (map snd ps)) \<longleftrightarrow> i < length ps \<and> p = snd (ps ! i)"
proof
  assume "(i, p) \<in> set (zip [0 ..< length ps] (map snd ps))"
  then obtain n where "n < length ps" "[0 ..< length ps] ! n = i" "map snd ps ! n = p"
    by (auto simp: in_set_zip)
  then show "i < length ps \<and> p = snd (ps ! i)" by auto
next
  assume a: "i < length ps \<and> p = snd (ps ! i)"
  then have "zip [0 ..< length ps] (map snd ps) ! i = (i, p)" by simp
  moreover have "i < length (zip [0 ..< length ps] (map snd ps))" using a by simp
  ultimately show "(i, p) \<in> set (zip [0 ..< length ps] (map snd ps))" by (metis nth_mem)
qed

lemma indexed_sorted:
  "sorted_wrt (\<lambda>a b. fst a < fst b) (filter P (zip [0 ..< length ps] (map snd ps)))"
proof -
  have "sorted_wrt (<) (map fst (zip [0 ..< length ps] (map snd ps)))" by simp
  then have "sorted_wrt (\<lambda>a b. fst a < fst b) (zip [0 ..< length ps] (map snd ps))"
    by (simp only: sorted_wrt_map)
  then show ?thesis by (rule sorted_wrt_filter)
qed

lemma selected_is_first_best:
  assumes L: "filter P (zip [0 ..< length ps] (map snd ps)) = first # others"
    and M: "max_by f first others = (i, best)"
  shows "i < length ps \<and> best = snd (ps ! i) \<and> P (i, best)
         \<and> (\<forall>j < length ps. P (j, snd (ps ! j)) \<longrightarrow> f (j, snd (ps ! j)) \<le> f (i, best))
         \<and> (\<forall>j < i. P (j, snd (ps ! j)) \<longrightarrow> f (j, snd (ps ! j)) < f (i, best))"
proof -
  let ?L = "filter P (zip [0 ..< length ps] (map snd ps))"
  obtain ys zs where s: "first # others = ys @ (i, best) # zs"
    and lt: "\<forall>y \<in> set ys. f y < f (i, best)"
    and le: "\<forall>z \<in> set zs. f z \<le> f (i, best)"
    using max_by_split [of first others f] M by auto
  have Ls: "?L = ys @ (i, best) # zs" using L s by simp
  have "(i, best) \<in> set ?L" unfolding Ls by simp
  then have sel: "i < length ps \<and> best = snd (ps ! i) \<and> P (i, best)"
    by (auto simp: indexed_mem)
  have sorted: "sorted_wrt (\<lambda>a b. fst a < fst b) (ys @ (i, best) # zs)"
    using indexed_sorted [of P ps] Ls by simp
  have mem: "(j, snd (ps ! j)) \<in> set ?L" if "j < length ps" "P (j, snd (ps ! j))" for j
    using that by (simp add: indexed_mem)
  have mx: "f (j, snd (ps ! j)) \<le> f (i, best)" if "j < length ps" "P (j, snd (ps ! j))" for j
  proof -
    have "(j, snd (ps ! j)) \<in> set (ys @ (i, best) # zs)" using mem [OF that] Ls by simp
    then show ?thesis using lt le by (auto simp: less_imp_le)
  qed
  have fs: "f (j, snd (ps ! j)) < f (i, best)" if "j < i" "P (j, snd (ps ! j))" for j
  proof -
    have "j < length ps" using that(1) sel by simp
    then have "(j, snd (ps ! j)) \<in> set (ys @ (i, best) # zs)" using mem that(2) Ls by simp
    moreover have "(j, snd (ps ! j)) \<noteq> (i, best)" using that(1) by simp
    moreover have "(j, snd (ps ! j)) \<notin> set zs"
    proof
      assume "(j, snd (ps ! j)) \<in> set zs"
      then have "i < j" using sorted by (auto simp: sorted_wrt_append)
      with that(1) show False by simp
    qed
    ultimately have "(j, snd (ps ! j)) \<in> set ys" by auto
    then show ?thesis using lt by blast
  qed
  from sel mx fs show ?thesis by blast
qed

lemma reset_recency_kept: "map kept_fields (reset_recency i ps) = map kept_fields ps"
proof (cases "i < length ps")
  case True
  have "kept_fields (fst (ps ! i), (snd (ps ! i))\<lparr>last_used := 0\<rparr>) = kept_fields (ps ! i)"
    by (simp add: kept_fields_def)
  with True show ?thesis
    by (simp add: reset_recency_def map_update list_update_same_conv)
next
  case False
  then show ?thesis by (simp add: reset_recency_def list_update_beyond)
qed

lemma update_first_match_one:
  "update_first_match st act success ps = ps
   \<or> (\<exists>i < length ps. update_first_match st act success ps
         = ps[i := (fst (ps ! i), update_effectiveness (snd (ps ! i)) success)])"
proof (induction ps)
  case Nil
  show ?case by simp
next
  case (Cons kp ps)
  obtain pid p where kp: "kp = (pid, p)" by (cases kp)
  define c where "c = (matches_conditions p st 0.8
                       \<and> (case actions p of [] \<Rightarrow> False | a # _ \<Rightarrow> a = act))"
  have step: "update_first_match st act success (kp # ps)
                = (if c then (pid, update_effectiveness p success) # ps
                   else kp # update_first_match st act success ps)"
    by (simp add: kp c_def)
  show ?case
  proof (cases c)
    case True
    have "update_first_match st act success (kp # ps) = (pid, update_effectiveness p success) # ps"
      using True by (simp only: step if_True)
    moreover have "(kp # ps)[0 := (fst ((kp # ps) ! 0), update_effectiveness (snd ((kp # ps) ! 0)) success)]
                     = (pid, update_effectiveness p success) # ps"
      by (simp add: kp)
    ultimately have "update_first_match st act success (kp # ps)
                 = (kp # ps)[0 := (fst ((kp # ps) ! 0), update_effectiveness (snd ((kp # ps) ! 0)) success)]"
      by (simp only:)
    moreover have "0 < length (kp # ps)" by simp
    ultimately show ?thesis by blast
  next
    case False
    from Cons.IH show ?thesis
    proof
      assume "update_first_match st act success ps = ps"
      with False show ?thesis by (simp add: step)
    next
      assume "\<exists>i < length ps. update_first_match st act success ps
                = ps[i := (fst (ps ! i), update_effectiveness (snd (ps ! i)) success)]"
      then obtain i where i: "i < length ps"
        and e: "update_first_match st act success ps
                  = ps[i := (fst (ps ! i), update_effectiveness (snd (ps ! i)) success)]" by blast
      have "update_first_match st act success (kp # ps)
              = (kp # ps)[Suc i := (fst ((kp # ps) ! Suc i),
                                    update_effectiveness (snd ((kp # ps) ! Suc i)) success)]"
        using False e by (simp add: step)
      moreover have "Suc i < length (kp # ps)" using i by simp
      ultimately show ?thesis by blast
    qed
  qed
qed

lemma update_effectiveness_usage:
  "usage_count (update_effectiveness p success) = usage_count p + 1"
  by (simp add: update_effectiveness_def Let_def)

text \<open>
  Claim C10. \<open>suggest_action\<close> leaves the key, id, conditions, actions, success rate,
  usage count and effectiveness history of every stored pattern as they were, in the same order.
  When it suggests nothing, the model is unchanged. When it suggests an action, the one change
  is the recency counter, set to 0, of the selected pattern: the stored pattern that begins with
  the suggested action, passes the filter (matching, established, success rate above 0.6), has
  the greatest recency score among the patterns that pass, and is the first such pattern in the
  store. The usage count grows elsewhere: \<open>update_pattern_effectiveness\<close> changes the
  model, if at all, by \<open>update_effectiveness\<close> on one stored pattern, which adds 1 to
  its usage count.
\<close>

theorem suggest_action_frame:
  "(case suggest_action rt m agent of
      (suggestion, m', rt') \<Rightarrow>
        map kept_fields (patterns m') = map kept_fields (patterns m)
        \<and> (case suggestion of
              None \<Rightarrow> m' = m
            | Some act \<Rightarrow>
                (\<exists>i < length (patterns m).
                    m' = m\<lparr>patterns := reset_recency i (patterns m)\<rparr>
                  \<and> (\<exists>rest. actions (snd (patterns m ! i)) = act # rest)
                  \<and> established_match m
                       (agent_state_of agent (fst (get_time_of_day (snd (random_random rt)))))
                       (snd (patterns m ! i))
                  \<and> (\<forall>j < length (patterns m).
                        established_match m
                          (agent_state_of agent (fst (get_time_of_day (snd (random_random rt)))))
                          (snd (patterns m ! j))
                        \<longrightarrow> recency_score (snd (patterns m ! j))
                              \<le> recency_score (snd (patterns m ! i)))
                  \<and> (\<forall>j < i.
                        established_match m
                          (agent_state_of agent (fst (get_time_of_day (snd (random_random rt)))))
                          (snd (patterns m ! j))
                        \<longrightarrow> recency_score (snd (patterns m ! j))
                              < recency_score (snd (patterns m ! i))))))
   \<and> (case update_pattern_effectiveness rt m agent suggested success of
        (m2, rt2) \<Rightarrow>
          m2 = m
          \<or> (\<exists>i < length (patterns m).
                m2 = m\<lparr>patterns := (patterns m)
                       [i := (fst (patterns m ! i),
                              update_effectiveness (snd (patterns m ! i)) success)]\<rparr>))
   \<and> usage_count (update_effectiveness p success) = usage_count p + 1"
proof -
  obtain r rt1 where r: "random_random rt = (r, rt1)" by (cases "random_random rt")
  obtain tod rt2 where t: "get_time_of_day rt1 = (tod, rt2)" by (cases "get_time_of_day rt1")
  define st where "st = agent_state_of agent tod"
  define P where "P = (\<lambda>ip :: nat \<times> BehaviorPattern. established_match m st (snd ip))"
  define matching where "matching = filter P (zip [0 ..< length (patterns m)] (map snd (patterns m)))"
  have eq: "suggest_action rt m agent =
     (if r < exploration_rate m then (None, m, rt1)
      else case matching of
             [] \<Rightarrow> (None, m, rt2)
           | first # others \<Rightarrow>
               (case max_by (\<lambda>ip. recency_score (snd ip)) first others of (i, best_pattern) \<Rightarrow>
                (case actions best_pattern of
                   [] \<Rightarrow> (None, m, rt2)
                 | act # _ \<Rightarrow> (Some act, m\<lparr>patterns := reset_recency i (patterns m)\<rparr>, rt2))))"
    by (simp add: suggest_action_def r t Let_def matching_def P_def st_def established_match_def)
  have st: "agent_state_of agent (fst (get_time_of_day (snd (random_random rt)))) = st"
    by (simp add: r t st_def)
  have first_part: "(case suggest_action rt m agent of
      (suggestion, m', rt') \<Rightarrow>
        map kept_fields (patterns m') = map kept_fields (patterns m)
        \<and> (case suggestion of
              None \<Rightarrow> m' = m
            | Some act \<Rightarrow>
                (\<exists>i < length (patterns m).
                    m' = m\<lparr>patterns := reset_recency i (patterns m)\<rparr>
                  \<and> (\<exists>rest. actions (snd (patterns m ! i)) = act # rest)
                  \<and> established_match m st (snd (patterns m ! i))
                  \<and> (\<forall>j < length (patterns m).
                        established_match m st (snd (patterns m ! j))
                        \<longrightarrow> recency_score (snd (patterns m ! j))
                              \<le> recency_score (snd (patterns m ! i)))
                  \<and> (\<forall>j < i.
                        established_match m st (snd (patterns m ! j))
                        \<longrightarrow> recency_score (snd (patterns m ! j))
                              < recency_score (snd (patterns m ! i))))))"
  proof (cases "r < exploration_rate m")
    case True
    then show ?thesis by (simp add: eq)
  next
    case explore: False
    show ?thesis
    proof (cases matching)
      case Nil
      with explore show ?thesis by (simp add: eq)
    next
      case (Cons first others)
      obtain i best where b: "max_by (\<lambda>ip. recency_score (snd ip)) first others = (i, best)"
        by (cases "max_by (\<lambda>ip. recency_score (snd ip)) first others")
      have L: "filter P (zip [0 ..< length (patterns m)] (map snd (patterns m))) = first # others"
        using Cons by (simp add: matching_def)
      note sel = selected_is_first_best [OF L b]
      show ?thesis
      proof (cases "actions best")
        case Nil
        with explore Cons b show ?thesis by (simp add: eq)
      next
        case (Cons act rest)
        have res: "suggest_action rt m agent
                     = (Some act, m\<lparr>patterns := reset_recency i (patterns m)\<rparr>, rt2)"
          using explore \<open>matching = first # others\<close> b Cons by (simp add: eq)
        have a1: "i < length (patterns m)" using sel by simp
        have a2: "\<exists>rest. actions (snd (patterns m ! i)) = act # rest"
          using sel Cons by auto
        have a3: "established_match m st (snd (patterns m ! i))"
          using sel by (auto simp: P_def)
        have a4: "\<forall>j < length (patterns m).
                        established_match m st (snd (patterns m ! j))
                        \<longrightarrow> recency_score (snd (patterns m ! j))
                              \<le> recency_score (snd (patterns m ! i))"
          using sel by (auto simp: P_def)
        have a5: "\<forall>j < i.
                        established_match m st (snd (patterns m ! j))
                        \<longrightarrow> recency_score (snd (patterns m ! j))
                              < recency_score (snd (patterns m ! i))"
          using sel by (auto simp: P_def)
        have "\<exists>k < length (patterns m).
                m\<lparr>patterns := reset_recency i (patterns m)\<rparr>
                  = m\<lparr>patterns := reset_recency k (patterns m)\<rparr>
              \<and> (\<exists>rest. actions (snd (patterns m ! k)) = act # rest)
              \<and> established_match m st (snd (patterns m ! k))
              \<and> (\<forall>j < length (patterns m).
                        established_match m st (snd (patterns m ! j))
                        \<longrightarrow> recency_score (snd (patterns m ! j))
                              \<le> recency_score (snd (patterns m ! k)))
              \<and> (\<forall>j < k.
                        established_match m st (snd (patterns m ! j))
                        \<longrightarrow> recency_score (snd (patterns m ! j))
                              < recency_score (snd (patterns m ! k)))"
          using a1 a2 a3 a4 a5 by (intro exI [of _ i]) simp
        then show ?thesis
          unfolding res by (simp add: reset_recency_kept)
      qed
    qed
  qed
  obtain tod' rt' where t': "get_time_of_day rt = (tod', rt')" by (cases "get_time_of_day rt")
  have upd: "update_pattern_effectiveness rt m agent suggested success
               = (m\<lparr>patterns := update_first_match (agent_state_of agent tod') suggested success
                                     (patterns m)\<rparr>, rt')"
    by (simp add: update_pattern_effectiveness_def t')
  have second_part: "(case update_pattern_effectiveness rt m agent suggested success of
        (m2, rt2) \<Rightarrow>
          m2 = m
          \<or> (\<exists>i < length (patterns m).
                m2 = m\<lparr>patterns := (patterns m)
                       [i := (fst (patterns m ! i),
                              update_effectiveness (snd (patterns m ! i)) success)]\<rparr>))"
    using update_first_match_one [of "agent_state_of agent tod'" suggested success "patterns m"]
  proof
    assume "update_first_match (agent_state_of agent tod') suggested success (patterns m) = patterns m"
    then show ?thesis by (simp add: upd)
  next
    assume "\<exists>i < length (patterns m).
              update_first_match (agent_state_of agent tod') suggested success (patterns m)
                = (patterns m)[i := (fst (patterns m ! i),
                                     update_effectiveness (snd (patterns m ! i)) success)]"
    then obtain i where "i < length (patterns m)"
      and "update_first_match (agent_state_of agent tod') suggested success (patterns m)
             = (patterns m)[i := (fst (patterns m ! i),
                                  update_effectiveness (snd (patterns m ! i)) success)]"
      by blast
    then have "\<exists>i < length (patterns m).
                m\<lparr>patterns := update_first_match (agent_state_of agent tod') suggested success
                                     (patterns m)\<rparr>
                  = m\<lparr>patterns := (patterns m)
                       [i := (fst (patterns m ! i),
                              update_effectiveness (snd (patterns m ! i)) success)]\<rparr>"
      by (intro exI [of _ i]) simp
    then show ?thesis unfolding upd by simp
  qed
  show ?thesis
    unfolding st by (intro conjI first_part second_part update_effectiveness_usage)
qed

theorem suggest_action_frame_witness:
  "suggest_action example_runtime second_model example_agent =
     (Some EAT,
      second_model\<lparr>patterns := [(''pattern_1_0'', poor_pattern),
                                 (''pattern_0_1'', example_pattern\<lparr>last_used := 0\<rparr>)]\<rparr>,
      example_runtime)
   \<and> map kept_fields (patterns (fst (snd (suggest_action example_runtime second_model example_agent))))
       = map kept_fields (patterns second_model)
   \<and> last_used poor_pattern = 3 \<and> last_used example_pattern = 7
   \<and> usage_count (update_effectiveness example_pattern True) = 7"
proof -
  have e: "suggest_action example_runtime second_model example_agent =
     (Some EAT,
      second_model\<lparr>patterns := [(''pattern_1_0'', poor_pattern),
                                 (''pattern_0_1'', example_pattern\<lparr>last_used := 0\<rparr>)]\<rparr>,
      example_runtime)"
    by (simp add: suggest_action_def example_runtime_def second_model_def example_agent_def
        new_GenerativeBehaviorModel_def random_random_def get_time_of_day_def time_time_def
        py_fmod_def agent_state_of_def matches_conditions_def condition_step_def
        example_pattern_def poor_pattern_def reset_recency_def recency_score_def Let_def upt_rec)
  have u: "usage_count example_pattern = 6" by (simp add: example_pattern_def)
  show ?thesis
    using suggest_action_frame [where rt = example_runtime and m = second_model
        and agent = example_agent and p = example_pattern and success = True
        and suggested = EAT]
    by (simp add: e u poor_pattern_def example_pattern_def)
qed

section \<open>The social-interaction phase\<close>

lemma needs_getitem_keys: "(\<exists>n. needs_getitem ns k = Inr n) \<longleftrightarrow> k \<in> set needs_keys"
  by (simp add: needs_getitem_def needs_keys_def)

lemma satisfy_social_raises: "satisfy_social a = Inl (KeyError ''social'')"
  by (simp add: satisfy_social_def needs_getitem_def)

text \<open>
  Claim C1. For a pair of agents of which one is socializing, when the roll is below the
  interaction probability times 0.3, the code creates the connection and then subscripts
  \<open>needs\<close> with \<open>'social'\<close>. The key is \<open>'social_need'\<close>, so the pair's
  step raises \<open>KeyError('social')\<close> and no social need is satisfied.
\<close>

theorem social_interaction_raises:
  assumes "agent1_id < length (agents eng)" and "agent2_id < length (agents eng)"
    and "current_action (agents eng ! agent1_id) = SOCIALIZE
         \<or> current_action (agents eng ! agent2_id) = SOCIALIZE"
    and "shd (rand_floats rt)
         < (extraversion (personality (agents eng ! agent1_id))
            + extraversion (personality (agents eng ! agent2_id))) / 2
           * (agreeableness (personality (agents eng ! agent1_id))
              + agreeableness (personality (agents eng ! agent2_id))) / 2 * 0.3"
  shows "interact location_name agent1_id agent2_id (eng, rt) = Inl (KeyError ''social'')"
  using assms
  by (simp add: interact_def agent_at_def random_random_def satisfy_social_raises Let_def)

theorem social_interaction_raises_witness:
  "process_social_interactions example_engine lucky_runtime = Inl (KeyError ''social'')"
proof -
  have "interact ''Community Center'' 0 1 (example_engine, lucky_runtime) = Inl (KeyError ''social'')"
    by (rule social_interaction_raises)
       (simp_all add: example_engine_def lucky_runtime_def example_agent_def)
  then show ?thesis
    by (simp add: process_social_interactions_def example_engine_def)
qed


section \<open>The suggestion phase\<close>

text \<open>
  Claim C2. When the pattern miner suggests an action for the first agent, the engine overrides
  the agent's current action and duration and then evaluates \<open>self.perform_action\<close>,
  an attribute that the engine does not have: \<open>apply_behavior_model_suggestions\<close> raises
  \<open>AttributeError\<close>; no action is performed and no event is triggered.
\<close>

theorem suggestion_raises:
  assumes "agents eng \<noteq> []"
    and "suggest_action rt (behavior_model eng) (agents eng ! 0) = (Some act, bm, rt1)"
  shows "apply_behavior_model_suggestions eng rt =
           Inl (AttributeError ''perform_action'',
                eng\<lparr>behavior_model := bm,
                    agents := (agents eng)
                      [0 := (agents eng ! 0)\<lparr>current_action := act,
                                              action_duration := fst (random_uniform rt1 1 3)\<rparr>]\<rparr>)"
proof -
  obtain n where n: "length (agents eng) = Suc n"
    using assms(1) by (cases "agents eng") auto
  obtain d rt2 where d: "random_uniform rt1 1 3 = (d, rt2)"
    by (cases "random_uniform rt1 1 3")
  show ?thesis
    using assms(2) by (simp add: apply_behavior_model_suggestions_def n d Let_def)
qed

lemma example_suggestion:
  "suggest_action example_runtime (behavior_model example_engine) (agents example_engine ! 0) =
     (Some EAT,
      example_model\<lparr>patterns := [(''pattern_0_1'', example_pattern\<lparr>last_used := 0\<rparr>),
                                  (''pattern_1_0'', poor_pattern)]\<rparr>,
      example_runtime)"
  by (simp add: suggest_action_def example_runtime_def example_model_def example_agent_def
      example_engine_def
      new_GenerativeBehaviorModel_def random_random_def get_time_of_day_def time_time_def
      py_fmod_def agent_state_of_def matches_conditions_def condition_step_def
      example_pattern_def poor_pattern_def reset_recency_def recency_score_def Let_def upt_rec)

theorem suggestion_raises_witness:
  "''perform_action'' \<notin> set SimulationEngine_attributes
   \<and> apply_behavior_model_suggestions example_engine example_runtime =
     Inl (AttributeError ''perform_action'',
          example_engine
            \<lparr>behavior_model :=
               example_model\<lparr>patterns := [(''pattern_0_1'', example_pattern\<lparr>last_used := 0\<rparr>),
                                           (''pattern_1_0'', poor_pattern)]\<rparr>,
             agents := (agents example_engine)
               [0 := (agents example_engine ! 0)\<lparr>current_action := EAT, action_duration := 2\<rparr>]\<rparr>)"
proof -
  have ne: "agents example_engine \<noteq> []" by (simp add: example_engine_def)
  have u: "fst (random_uniform example_runtime 1 3) = 2"
    by (simp add: random_uniform_def random_random_def example_runtime_def)
  show ?thesis
    using suggestion_raises [OF ne example_suggestion] u
    by (simp add: SimulationEngine_attributes_def)
qed

section \<open>Saving and loading the pattern store\<close>

lemma update_fresh_key: "k \<notin> fst ` set ps \<Longrightarrow> AList.update k v ps = ps @ [(k, v)]"
  by (induction ps) auto

lemma actions_of_values_inverse: "actions_of_values (map ActionType_value acts) = Inr acts"
proof (induction acts)
  case Nil
  then show ?case by simp
next
  case (Cons a acts)
  have "ActionType_of_value (ActionType_value a) = Inr a"
    by (cases a) (simp_all add: ActionType_of_value_def)
  with Cons show ?case by simp
qed

lemma load_entry_saved:
  "fst kp \<notin> fst ` set (patterns m)
   \<Longrightarrow> load_entry m (fst kp, pattern_to_entry (snd kp)) = Inr (m\<lparr>patterns := patterns m @ [reloaded kp]\<rparr>)"
  by (simp add: load_entry_def pattern_to_entry_def actions_of_values_inverse update_fresh_key
      new_BehaviorPattern_def reloaded_def Let_def)

lemma load_entries_saved:
  "distinct (map fst xs) \<Longrightarrow> fst ` set xs \<inter> fst ` set (patterns m) = {}
   \<Longrightarrow> load_entries m (map (\<lambda>kp. (fst kp, pattern_to_entry (snd kp))) xs)
       = Inr (m\<lparr>patterns := patterns m @ map reloaded xs\<rparr>)"
proof (induction xs arbitrary: m)
  case Nil
  then show ?case by simp
next
  case (Cons kp xs)
  let ?m1 = "m\<lparr>patterns := patterns m @ [reloaded kp]\<rparr>"
  from Cons.prems have fresh: "fst kp \<notin> fst ` set (patterns m)" by auto
  have d: "distinct (map fst xs)" using Cons.prems by simp
  have "fst ` set xs \<inter> fst ` set (patterns ?m1) = {}"
    using Cons.prems by (auto simp: reloaded_def)
  from Cons.IH [OF d this] fresh show ?case
    by (simp add: load_entry_saved)
qed

lemma save_fold:
  "distinct (map fst xs) \<Longrightarrow> fst ` set xs \<inter> fst ` set acc = {}
   \<Longrightarrow> foldl (\<lambda>d kp. AList.update (fst kp) (f (snd kp)) d) acc xs
       = acc @ map (\<lambda>kp. (fst kp, f (snd kp))) xs"
proof (induction xs arbitrary: acc)
  case Nil
  then show ?case by simp
next
  case (Cons kp xs)
  from Cons.prems have fresh: "fst kp \<notin> fst ` set acc" by auto
  have d: "distinct (map fst xs)" using Cons.prems by simp
  have "fst ` set xs \<inter> fst ` set (acc @ [(fst kp, f (snd kp))]) = {}"
    using Cons.prems by auto
  from Cons.IH [OF d this] fresh show ?case
    by (simp add: update_fresh_key)
qed

lemma persisted_reloaded: "persisted_fields (reloaded kp) = persisted_fields kp"
  by (simp add: persisted_fields_def reloaded_def)

text \<open>
  Claim C9. For every pattern store (a dict: its keys are distinct), saving it and loading the
  file into a new model succeeds, and the loaded store has the same ids in the same order, each
  with the conditions, actions, success rate and usage count of the original.
\<close>

theorem save_load_roundtrip:
  assumes "distinct (map fst (patterns m))"
  shows "\<exists>m'. load_patterns new_GenerativeBehaviorModel filename (save_patterns m filename fs) = Inr m'
              \<and> map persisted_fields (patterns m') = map persisted_fields (patterns m)"
proof -
  have saved: "save_patterns m filename fs
      = fs(filename \<mapsto> PatternData (map (\<lambda>kp. (fst kp, pattern_to_entry (snd kp))) (patterns m)))"
    using save_fold [OF assms, of "[]" pattern_to_entry]
    by (simp add: save_patterns_def)
  have "load_entries new_GenerativeBehaviorModel
          (map (\<lambda>kp. (fst kp, pattern_to_entry (snd kp))) (patterns m))
        = Inr (new_GenerativeBehaviorModel\<lparr>patterns := map reloaded (patterns m)\<rparr>)"
    using load_entries_saved [OF assms, of new_GenerativeBehaviorModel]
    by (simp add: new_GenerativeBehaviorModel_def)
  then have "load_patterns new_GenerativeBehaviorModel filename (save_patterns m filename fs)
        = Inr (new_GenerativeBehaviorModel\<lparr>patterns := map reloaded (patterns m)\<rparr>)"
    by (simp add: load_patterns_def saved)
  then show ?thesis
    by (simp add: persisted_reloaded comp_def)
qed

theorem save_load_roundtrip_witness:
  "distinct (map fst (patterns example_model))
   \<and> (\<exists>m'. load_patterns new_GenerativeBehaviorModel ''behavior_patterns.json''
              (save_patterns example_model ''behavior_patterns.json'' Map.empty) = Inr m'
        \<and> map persisted_fields (patterns m') = map persisted_fields (patterns example_model))"
proof -
  have d: "distinct (map fst (patterns example_model))"
    by (simp add: example_model_def)
  show ?thesis
    using d save_load_roundtrip [OF d, of "''behavior_patterns.json''" Map.empty] by simp
qed

text \<open>
  Claim C6, as the code has it. \<open>load_patterns\<close> catches \<open>FileNotFoundError\<close>
  and nothing else: when the file is missing the model is returned as it was (an empty store for
  a new model) and nothing is raised; when the file does not hold JSON, the decoder's exception
  leaves the function.
\<close>

theorem load_missing_or_corrupt:
  "(fs filename = None \<longrightarrow> load_patterns m filename fs = Inr m)
   \<and> (fs filename = Some NotJSON \<longrightarrow> load_patterns m filename fs = Inl JSONDecodeError)"
  by (simp add: load_patterns_def)

theorem load_missing_or_corrupt_witness:
  "load_patterns new_GenerativeBehaviorModel ''behavior_patterns.json'' Map.empty
     = Inr new_GenerativeBehaviorModel
   \<and> patterns new_GenerativeBehaviorModel = []
   \<and> load_patterns new_GenerativeBehaviorModel ''behavior_patterns.json''
        [''behavior_patterns.json'' \<mapsto> NotJSON] = Inl JSONDecodeError"
  using load_missing_or_corrupt [of Map.empty "''behavior_patterns.json''" new_GenerativeBehaviorModel]
    load_missing_or_corrupt [of "[''behavior_patterns.json'' \<mapsto> NotJSON]" "''behavior_patterns.json''"
      new_GenerativeBehaviorModel]
  by (simp add: new_GenerativeBehaviorModel_def)

text \<open>
  Claim C6 as stated fails on a corrupt file: text that is not JSON raises
  \<open>JSONDecodeError\<close>, and a JSON object with an entry that lacks \<open>'actions'\<close>
  raises \<open>KeyError\<close>.
\<close>

theorem load_corrupt_counterexample:
  "load_patterns new_GenerativeBehaviorModel ''behavior_patterns.json''
     [''behavior_patterns.json'' \<mapsto> NotJSON] = Inl JSONDecodeError
   \<and> load_patterns new_GenerativeBehaviorModel ''behavior_patterns.json''
     [''behavior_patterns.json'' \<mapsto>
        PatternData [(''pattern_0_1'', pattern_to_entry example_pattern),
                     (''pattern_0_2'', (pattern_to_entry example_pattern)\<lparr>j_actions := None\<rparr>)]]
     = Inl (KeyError ''actions'')"
  by (simp add: load_patterns_def load_entry_def pattern_to_entry_def example_pattern_def
      ActionType_of_value_def new_GenerativeBehaviorModel_def new_BehaviorPattern_def Let_def)

section \<open>Pruning in \<open>evolve_patterns\<close>\<close>

lemma map_of_aged:
  "map_of (map (\<lambda>kp. (fst kp, age (snd kp))) ps) k = map_option age (map_of ps k)"
  by (induction ps) auto

lemma map_of_delete_all:
  "map_of (foldl (\<lambda>ps pid. AList.delete pid ps) xs ks) k
     = (if k \<in> set ks then None else map_of xs k)"
  by (induction ks arbitrary: xs) (auto simp: delete_conv')

lemma prune_patterns_lookup:
  assumes d: "distinct (map fst (patterns m))" and mem: "(pid, p) \<in> set (patterns m)"
  shows "map_of (patterns (prune_patterns m)) pid
           = (if to_remove m (age p) then None else Some (age p))"
proof -
  let ?aged = "map (\<lambda>kp. (fst kp, age (snd kp))) (patterns m)"
  have look: "map_of (patterns m) pid = Some p" using d mem by simp
  have aged: "map_of ?aged pid = Some (age p)" by (simp add: map_of_aged look)
  have d': "distinct (map fst ?aged)" using d by (simp add: comp_def)
  have "pid \<in> set (map fst (filter (\<lambda>kp. to_remove m (snd kp)) ?aged)) \<longleftrightarrow> to_remove m (age p)"
  proof
    assume "pid \<in> set (map fst (filter (\<lambda>kp. to_remove m (snd kp)) ?aged))"
    then obtain kp where kp: "kp \<in> set ?aged" "to_remove m (snd kp)" "fst kp = pid"
      by auto
    have "kp = (pid, snd kp)" using kp(3) by (simp add: prod_eq_iff)
    with kp(1) have "(pid, snd kp) \<in> set ?aged" by metis
    with d' have "map_of ?aged pid = Some (snd kp)" by (rule map_of_is_SomeI)
    with aged kp(2) show "to_remove m (age p)" by simp
  next
    assume r: "to_remove m (age p)"
    have "(pid, age p) \<in> set ?aged" using aged by (rule map_of_SomeD)
    with r show "pid \<in> set (map fst (filter (\<lambda>kp. to_remove m (snd kp)) ?aged))" by force
  qed
  then show ?thesis
    by (simp add: prune_patterns_def Let_def map_of_delete_all aged)
qed

lemma create_pattern_mutation_store:
  "\<exists>mp. fst (create_pattern_mutation rt m p)
     = m\<lparr>pattern_counter := pattern_counter m + 1,
         patterns := AList.update (''mutation_'' @ py_str (pattern_counter m) @ ''_'' @ pattern_id p)
                       mp (patterns m)\<rparr>"
  by (auto simp: create_pattern_mutation_def Let_def split: prod.splits if_splits)

lemma mutate_each_lookup:
  "pid \<notin> set (mutation_ids_each rt m ps)
   \<Longrightarrow> map_of (patterns (fst (mutate_each rt m ps))) pid = map_of (patterns m) pid"
proof (induction ps arbitrary: rt m)
  case Nil
  then show ?case by simp
next
  case (Cons p ps)
  obtain r rt1 where r: "random_random rt = (r, rt1)" by (cases "random_random rt")
  show ?case
  proof (cases "r < 0.1")
    case True
    obtain m1 rt2 where c: "create_pattern_mutation rt1 m p = (m1, rt2)"
      by (cases "create_pattern_mutation rt1 m p")
    obtain mp where e: "m1
       = m\<lparr>pattern_counter := pattern_counter m + 1,
           patterns := AList.update (''mutation_'' @ py_str (pattern_counter m) @ ''_'' @ pattern_id p)
                         mp (patterns m)\<rparr>"
      using create_pattern_mutation_store [of rt1 m p] c by auto
    from Cons.prems True have
      ne: "pid \<noteq> ''mutation_'' @ py_str (pattern_counter m) @ ''_'' @ pattern_id p"
      and rest: "pid \<notin> set (mutation_ids_each rt2 m1 ps)"
      by (simp_all add: r c)
    have "map_of (patterns m1) pid = map_of (patterns m) pid"
      using ne by (simp add: e update_conv')
    with True show ?thesis
      using Cons.IH [OF rest] by (simp add: r c)
  next
    case False
    with Cons.prems have "pid \<notin> set (mutation_ids_each rt1 m ps)" by (simp add: r)
    with False show ?thesis
      using Cons.IH [of rt1 m] by (simp add: r)
  qed
qed

text \<open>
  Pruning itself is as intended. In a store with distinct keys and minimum usage 5, every
  stored pattern whose id is not among the ids under which this call stores a mutation is
  absent afterwards when it has usage count \<open>\<ge> 10\<close> and success rate
  \<open>< 0.3\<close>, or usage count \<open>< 5\<close> and a recency counter above 100 after the
  increment; otherwise its id holds the same pattern with the recency counter incremented by 1.
\<close>

lemma evolve_patterns_lookup:
  assumes "distinct (map fst (patterns m))" and "min_pattern_usage m = 5"
    and "(pid, p) \<in> set (patterns m)" and "pid \<notin> set (created_mutation_ids rt m)"
  shows "map_of (patterns (fst (evolve_patterns rt m))) pid =
           (if (usage_count p \<ge> 10 \<and> success_rate p < 0.3)
               \<or> (last_used p + 1 > 100 \<and> usage_count p < 5)
            then None
            else Some (p\<lparr>last_used := last_used p + 1\<rparr>))"
proof -
  have "map_of (patterns (fst (evolve_patterns rt m))) pid
          = map_of (patterns (prune_patterns m)) pid"
    using assms(4)
    by (simp add: evolve_patterns_def mutate_successful_patterns_def created_mutation_ids_def
        Let_def mutate_each_lookup)
  also have "\<dots> = (if to_remove m (age p) then None else Some (age p))"
    using assms(1,3) by (rule prune_patterns_lookup)
  finally show ?thesis
    using assms(2) by (simp add: to_remove_def age_def)
qed

lemma example_created_ids:
  "created_mutation_ids lucky_runtime example_model = [''mutation_2_pattern_0_1'']"
  by (simp add: created_mutation_ids_def example_model_def example_pattern_def poor_pattern_def
      lucky_runtime_def new_GenerativeBehaviorModel_def prune_patterns_def
      create_pattern_mutation_def new_BehaviorPattern_def
      age_def to_remove_def random_random_def random_uniform_def py_str.simps Let_def)

lemma ineffective_pattern_removed:
  "usage_count poor_pattern = 10 \<and> success_rate poor_pattern = 0.1
   \<and> map_of (patterns (fst (evolve_patterns lucky_runtime example_model))) ''pattern_1_0'' = None
   \<and> map_of (patterns (fst (evolve_patterns lucky_runtime example_model))) ''pattern_0_1''
       = Some (example_pattern\<lparr>last_used := 8\<rparr>)"
proof -
  have h: "distinct (map fst (patterns example_model))" "min_pattern_usage example_model = 5"
    by (simp_all add: example_model_def new_GenerativeBehaviorModel_def)
  have p1: "(''pattern_1_0'', poor_pattern) \<in> set (patterns example_model)"
    and p0: "(''pattern_0_1'', example_pattern) \<in> set (patterns example_model)"
    by (simp_all add: example_model_def)
  have n1: "''pattern_1_0'' \<notin> set (created_mutation_ids lucky_runtime example_model)"
    and n0: "''pattern_0_1'' \<notin> set (created_mutation_ids lucky_runtime example_model)"
    by (simp_all add: example_created_ids)
  show ?thesis
    using evolve_patterns_lookup [OF h p1 n1] evolve_patterns_lookup [OF h p0 n0]
    by (simp add: poor_pattern_def example_pattern_def)
qed

text \<open>
  Claim C8. The call does not remove a pattern exactly when one of the two tests holds: a
  mutation can take the id of a stored pattern and replace it. The pattern counter is not saved
  with the patterns, so a new model that loaded the patterns of an earlier run starts again at 0,
  and the mutation of \<open>pattern_0_1\<close> is named \<open>mutation_0_pattern_0_1\<close> once
  more. The stored pattern of that name (usage count 2, success rate 0.5, recency counter 7)
  meets neither test, yet after the call its id holds the new mutation, with recency counter 0
  instead of 8.
\<close>

theorem mutation_replaces_stored_pattern:
  "map_of (patterns reloaded_model) ''mutation_0_pattern_0_1'' = Some earlier_mutation
   \<and> usage_count earlier_mutation = 2 \<and> success_rate earlier_mutation = 0.5
   \<and> last_used earlier_mutation = 7
   \<and> map_of (patterns (fst (evolve_patterns lucky_runtime reloaded_model))) ''mutation_0_pattern_0_1''
       = Some \<lparr>pattern_id = ''mutation_0_pattern_0_1'',
               conditions = [(''hunger'', Number 1), (''energy'', Number 1)],
               actions = [EAT], success_rate = 0.81, usage_count = 0, last_used = 0,
               effectiveness_history = []\<rparr>
   \<and> map_of (patterns (fst (evolve_patterns lucky_runtime reloaded_model))) ''mutation_0_pattern_0_1''
       \<noteq> Some (earlier_mutation\<lparr>last_used := 8\<rparr>)"
  by (simp add: reloaded_model_def earlier_mutation_def example_pattern_def lucky_runtime_def
      new_GenerativeBehaviorModel_def evolve_patterns_def prune_patterns_def
      mutate_successful_patterns_def create_pattern_mutation_def new_BehaviorPattern_def
      age_def to_remove_def random_random_def random_uniform_def py_str.simps Let_def)

end
